theory Spec2Isabelle
  imports Main "HOL-Library.Word"
begin

unbundle bit_operations_syntax

section \<open>The TypeScript compiler as an oracle\<close>

text \<open>
  The indexers never build syntax nodes or semantic symbols: they receive opaque handles
  from the TypeScript compiler and query them. A handle is a number (object identity);
  every query is a field of an oracle record, so each indexer function is a function of
  the oracle and of its own state.
\<close>

type_synonym tsNode = nat
type_synonym tsSymbol = nat

datatype syntaxKind =
    SourceFile | ExportAssignment | ExportDeclaration | Identifier | StringLiteral
  | ClassDeclaration | InterfaceDeclaration | TypeParameter | MethodDeclaration
  | FunctionDeclaration | EnumDeclaration | VariableDeclaration | PropertyDeclaration
  | MethodSignature | PropertySignature | ModuleDeclaration | PropertyAssignment
  | ShorthandPropertyAssignment | Block | ModuleBlock | ImportDeclaration | ImportClause
  | NamedImports | NamedExports | ImportSpecifier | VariableStatement
  | VariableDeclarationList | OtherKind nat

record position =
  line :: nat
  character :: nat

record lspRange =
  rangeStart :: position
  rangeEnd :: position

datatype 'a thrown = Throws | Returns 'a

record quickInfo =
  displayParts :: "string list option"
  documentation :: "string list option"

text \<open>Queries on syntax nodes (\<open>ts.Node\<close>, \<open>ts.SourceFile\<close>).\<close>

record tsAst =
  kind :: "tsNode \<Rightarrow> syntaxKind"
  parent :: "tsNode \<Rightarrow> tsNode"
  getSourceFile :: "tsNode \<Rightarrow> tsNode"
  fileName :: "tsNode \<Rightarrow> string"
  isDeclarationFile :: "tsNode \<Rightarrow> bool"
  node_getText :: "tsNode \<Rightarrow> string"
  name :: "tsNode \<Rightarrow> tsNode"
  optionalName :: "tsNode \<Rightarrow> tsNode option"
  getStart :: "tsNode \<Rightarrow> tsNode \<Rightarrow> bool option \<Rightarrow> nat"
  getEnd :: "tsNode \<Rightarrow> nat"
  getLineAndCharacterOfPosition :: "tsNode \<Rightarrow> nat \<Rightarrow> position"
  expression :: "tsNode \<Rightarrow> tsNode"
  exportClause :: "tsNode \<Rightarrow> tsNode option"
  elements :: "tsNode \<Rightarrow> tsNode list"
  propertyName :: "tsNode \<Rightarrow> tsNode option"
  moduleSpecifier :: "tsNode \<Rightarrow> tsNode option"

text \<open>Queries on the program, the type checker, the language service and on symbols.\<close>

record tsChecker =
  getSymbolAtLocation :: "tsNode \<Rightarrow> tsSymbol option"
  getAliasedSymbol :: "tsSymbol \<Rightarrow> tsSymbol"
  getFlags :: "tsSymbol \<Rightarrow> 32 word"
  getName :: "tsSymbol \<Rightarrow> string"
  getEscapedName :: "tsSymbol \<Rightarrow> string"
  declarations :: "tsSymbol \<Rightarrow> tsNode list option"
  typeSymbolAtLocation :: "tsNode \<Rightarrow> tsSymbol option"
  getQuickInfoAtPosition :: "tsNode \<Rightarrow> tsNode \<Rightarrow> quickInfo option thrown"
  isSourceFileFromExternalLibrary :: "tsNode \<Rightarrow> bool"

text \<open>
  The helpers of \<open>./typescripts\<close> (imported as \<open>tss\<close>) and of the \<open>Symbols\<close> class of
  \<open>./lsif\<close>. Their files are not part of the sources at hand, so the indexers take them
  as parameters.
\<close>

record tssHelpers =
  createSymbolKey :: "tsSymbol \<Rightarrow> string"
  getSymbolFromNode :: "tsNode \<Rightarrow> tsSymbol option"
  tss_isSourceFile :: "tsSymbol \<Rightarrow> bool"
  tss_isTransient :: "tsSymbol \<Rightarrow> bool"
  tss_isTypeAlias :: "tsSymbol \<Rightarrow> bool"
  tss_isAliasSymbol :: "tsSymbol \<Rightarrow> bool"
  tss_isMethodSymbol :: "tsSymbol \<Rightarrow> bool"
  tss_isValueModule :: "tsSymbol \<Rightarrow> bool"
  tss_isComposite :: "tsSymbol \<Rightarrow> tsNode option \<Rightarrow> bool"
  tss_getCompositeSymbols :: "tsSymbol \<Rightarrow> tsNode option \<Rightarrow> tsSymbol list option"
  tss_getSymbolParent :: "tsSymbol \<Rightarrow> tsSymbol option"
  tss_isNamedDeclaration :: "tsNode \<Rightarrow> bool"
  tss_getUniqueSourceFiles :: "tsNode list option \<Rightarrow> tsNode list"
  tss_computeMonikerPath :: "string \<Rightarrow> string \<Rightarrow> string"
  tss_toOutLocation :: "string \<Rightarrow> string \<Rightarrow> string \<Rightarrow> string"
  tss_createMonikerIdentifier :: "string option \<Rightarrow> string option \<Rightarrow> string"
  findBaseMembers :: "tsSymbol \<Rightarrow> string \<Rightarrow> tsSymbol list option"
  getLocationKind :: "tsNode list \<Rightarrow> nat"
  getExportPath :: "tsSymbol \<Rightarrow> nat \<Rightarrow> string option"

record pathContext =
  projectRoot :: string
  rootDir :: string
  outDir :: string
  repositoryRoot :: string

record tsOracle =
  ast :: tsAst
  checker :: tsChecker
  tss :: tssHelpers
  paths :: pathContext

section \<open>The path-moniker indexer, second variant (\<open>src/v2/indexer.ts\<close>)\<close>

text \<open>The resolver types named by the \<open>switch\<close> statements of \<open>src/v2/indexer.ts\<close>.\<close>

datatype resolverType = Alias | Method | Standard | Transient | UnionOrIntersection

text \<open>\<open>Indexer.getDeclarations\<close>; \<open>symbol.getDeclarations() || []\<close> is the default branch.\<close>

definition getDeclarations :: "tsOracle \<Rightarrow> tsSymbol \<Rightarrow> tsNode \<Rightarrow> resolverType \<Rightarrow> tsNode list" where
  "getDeclarations orc symbol node rt =
     (case rt of
        Transient \<Rightarrow> [node]
      | UnionOrIntersection \<Rightarrow> [node]
      | _ \<Rightarrow> (case declarations (checker orc) symbol of None \<Rightarrow> [] | Some ds \<Rightarrow> ds))"

text \<open>\<open>Indexer.getSourceFiles\<close>.\<close>

definition getSourceFiles :: "tsOracle \<Rightarrow> tsSymbol \<Rightarrow> tsNode \<Rightarrow> resolverType \<Rightarrow> tsNode list" where
  "getSourceFiles orc symbol node rt =
     (case rt of
        Transient \<Rightarrow> [getSourceFile (ast orc) node]
      | UnionOrIntersection \<Rightarrow> [getSourceFile (ast orc) node]
      | _ \<Rightarrow> tss_getUniqueSourceFiles (tss orc) (declarations (checker orc) symbol))"

text \<open>\<open>Indexer.getText\<close>: the display text of a declaration and the node that carries it.\<close>

definition getText :: "tsOracle \<Rightarrow> tsSymbol \<Rightarrow> tsNode \<Rightarrow> resolverType \<Rightarrow> (string \<times> tsNode) option" where
  "getText orc symbol node rt =
     (case rt of
        UnionOrIntersection \<Rightarrow> Some (node_getText (ast orc) node, node)
      | _ \<Rightarrow>
          if tss_isNamedDeclaration (tss orc) node
          then Some (node_getText (ast orc) (name (ast orc) node), name (ast orc) node)
          else if tss_isValueModule (tss orc) symbol \<and> kind (ast orc) node = SourceFile
          then Some ([], node)
          else None)"

section \<open>Graph elements, the emitter and the two data classes\<close>

datatype symbolKind = SK_Class | SK_Interface | SK_TypeParameter | SK_Method | SK_Function | SK_Property

text \<open>\<open>symbolKindMap\<close> of \<open>src/indexer.ts\<close>; a kind that is not a key maps to \<open>None\<close>.\<close>

definition symbolKindMap :: "syntaxKind \<Rightarrow> symbolKind option" where
  "symbolKindMap k =
     (case k of
        ClassDeclaration \<Rightarrow> Some SK_Class
      | InterfaceDeclaration \<Rightarrow> Some SK_Interface
      | TypeParameter \<Rightarrow> Some SK_TypeParameter
      | MethodDeclaration \<Rightarrow> Some SK_Method
      | FunctionDeclaration \<Rightarrow> Some SK_Function
      | _ \<Rightarrow> None)"

datatype rangeTag = DefinitionTag string symbolKind lspRange | ReferenceTag string

record rangeVertex =
  rv_id :: nat
  rv_range :: lspRange
  rv_tag :: rangeTag

record documentVertex =
  dv_id :: nat
  dv_uri :: string

datatype monikerKind = ImportMoniker | ExportMoniker

record monikerVertex =
  mv_id :: nat
  mv_kind :: monikerKind
  mv_identifier :: string

datatype element = EmitDocument documentVertex | EmitRange rangeVertex | EmitMoniker monikerVertex

datatype markedString = MarkedText string | MarkedCode string string

record hover =
  contents :: "markedString list"

text \<open>
  Modelled from the spec: the definition info of \<open>tss.createDefinitionInfo\<close>
  (\<open>./typescripts\<close> is absent). The spec calls it the pair of a file and a range, compared
  by equality.
\<close>

record definitionInfo =
  di_file :: string
  di_range :: lspRange

text \<open>
  The classes of \<open>./symbol\<close> that \<open>makeSymbolData\<close> instantiates, with the constructor
  arguments it passes (other symbol data are references into the heap of the indexer).
\<close>

datatype symbolDataClass =
    StandardSymbolData
  | AliasSymbolData nat bool
  | MethodSymbolData "nat list" tsNode
  | UnionOrIntersectionSymbolData "nat list" tsNode
  | TransientSymbolData

text \<open>
  Modelled from the spec: the fields of a symbol graph node (\<open>./symbol\<close> is absent): its
  variant, the document it was created in, whether \<open>begin\<close> ran, the attached monikers,
  the accumulated definitions and references, the recorded definition infos and hovers.
\<close>

record symbolData =
  sd_class :: symbolDataClass
  sd_document :: documentVertex
  sd_begun :: bool
  sd_monikers :: "monikerVertex list"
  sd_definitions :: "(tsNode \<times> rangeVertex) list"
  sd_references :: "(tsNode \<times> rangeVertex) list"
  sd_definitionInfos :: "definitionInfo list"
  sd_hovers :: "hover list"

text \<open>
  The constructor arguments of \<open>DocumentData\<close> as \<open>getOrCreateDocumentData\<close> passes them;
  modelled from the spec: the ordered list of occurrence nodes and the \<open>begin\<close> flag.
\<close>

record documentData =
  dd_document :: documentVertex
  dd_externalLibrary :: bool
  dd_monikerPath :: "string option"
  dd_begun :: bool
  dd_ranges :: "rangeVertex list"

text \<open>
  The methods of a symbol data object that depend on its class: \<open>getSourceFiles\<close>,
  \<open>getDeclarations\<close> and \<open>getText\<close> of \<open>./symbol\<close>, parameters of \<open>src/indexer.ts\<close>.
\<close>

record symbolMethods =
  sd_getSourceFiles :: "symbolData \<Rightarrow> tsSymbol \<Rightarrow> tsNode option \<Rightarrow> tsNode list"
  sd_getDeclarations :: "symbolData \<Rightarrow> tsSymbol \<Rightarrow> tsNode option \<Rightarrow> tsNode list"
  sd_getText :: "symbolData \<Rightarrow> tsSymbol \<Rightarrow> tsNode \<Rightarrow> (string \<times> tsNode) option"

text \<open>
  The state of an \<open>Indexer\<close>: its two caches, its current file and document, and the
  objects the caches and the symbol data refer to. A data object lives in a heap (a list,
  the reference is the index), since the same object is reached from a cache, from
  \<open>currentDocumentData\<close> and from other symbol data, and is updated in place. The
  declared cache value type \<open>SymbolData | null\<close> is narrowed to the object: no statement of
  either indexer stores \<open>null\<close>. \<open>emitted\<close> is what the emitter was given, in order;
  \<open>nextId\<close> is the identifier the vertex builder hands out next.
\<close>

record indexer =
  documentDatas :: "string \<rightharpoonup> nat"
  symbolDatas :: "string \<rightharpoonup> nat"
  currentSourceFile :: "tsNode option"
  currentDocumentData :: "nat option"
  documentHeap :: "documentData list"
  symbolHeap :: "symbolData list"
  emitted :: "element list"
  nextId :: nat

datatype error = Error string | TypeError string

type_synonym 'a result = "(error + 'a) option"

text \<open>
  A result is \<open>None\<close> when the recursion budget is used up (the call has not returned),
  \<open>Some (Inl e)\<close> when the call throws \<open>e\<close>, and \<open>Some (Inr x)\<close> when it returns \<open>x\<close>.
\<close>

definition andThen :: "'a result \<Rightarrow> ('a \<Rightarrow> 'b result) \<Rightarrow> 'b result" where
  "andThen m f = (case m of None \<Rightarrow> None | Some (Inl e) \<Rightarrow> Some (Inl e) | Some (Inr x) \<Rightarrow> f x)"

text \<open>
  Modelled from the spec: the emitter and its vertex builder (\<open>./writer\<close> is absent). A
  vertex gets the next identifier; \<open>emit\<close> appends to the output.
\<close>

definition emit :: "element \<Rightarrow> indexer \<Rightarrow> indexer" where
  "emit e st = st\<lparr>emitted := emitted st @ [e]\<rparr>"

definition vertex_document :: "string \<Rightarrow> indexer \<Rightarrow> documentVertex \<times> indexer" where
  "vertex_document uri st = (\<lparr>dv_id = nextId st, dv_uri = uri\<rparr>, st\<lparr>nextId := Suc (nextId st)\<rparr>)"

definition vertex_range :: "lspRange \<Rightarrow> rangeTag \<Rightarrow> indexer \<Rightarrow> rangeVertex \<times> indexer" where
  "vertex_range r t st =
     (\<lparr>rv_id = nextId st, rv_range = r, rv_tag = t\<rparr>, st\<lparr>nextId := Suc (nextId st)\<rparr>)"

text \<open>
  Modelled from the spec: \<open>handleImportMoniker\<close> and \<open>handleExportMoniker\<close> of the emitter
  build the moniker vertex of the identifier, emit it and return it.
\<close>

definition handleMoniker :: "monikerKind \<Rightarrow> string \<Rightarrow> indexer \<Rightarrow> monikerVertex \<times> indexer" where
  "handleMoniker k ident st =
     (let m = \<lparr>mv_id = nextId st, mv_kind = k, mv_identifier = ident\<rparr>
      in (m, emit (EmitMoniker m) (st\<lparr>nextId := Suc (nextId st)\<rparr>)))"

definition updateDocument :: "nat \<Rightarrow> (documentData \<Rightarrow> documentData) \<Rightarrow> indexer \<Rightarrow> indexer" where
  "updateDocument d f st = st\<lparr>documentHeap := (documentHeap st)[d := f (documentHeap st ! d)]\<rparr>"

definition updateSymbol :: "nat \<Rightarrow> (symbolData \<Rightarrow> symbolData) \<Rightarrow> indexer \<Rightarrow> indexer" where
  "updateSymbol d f st = st\<lparr>symbolHeap := (symbolHeap st)[d := f (symbolHeap st ! d)]\<rparr>"

text \<open>
  Modelled from the spec: the methods of \<open>DocumentData\<close> (\<open>./document\<close> is absent).
  \<open>begin\<close> registers the document (its vertex is emitted), \<open>addRange\<close> appends an
  occurrence in visitation order.
\<close>

definition DocumentData_begin :: "nat \<Rightarrow> indexer \<Rightarrow> indexer" where
  "DocumentData_begin d st =
     emit (EmitDocument (dd_document (documentHeap st ! d)))
       (updateDocument d (\<lambda>x. x\<lparr>dd_begun := True\<rparr>) st)"

definition DocumentData_addRange :: "nat \<Rightarrow> rangeVertex \<Rightarrow> indexer \<Rightarrow> indexer" where
  "DocumentData_addRange d r st = updateDocument d (\<lambda>x. x\<lparr>dd_ranges := dd_ranges x @ [r]\<rparr>) st"

text \<open>
  Modelled from the spec: the methods of \<open>SymbolData\<close> that do not depend on the class
  (\<open>./symbol\<close> is absent). Each one accumulates into its field of the node;
  \<open>hasDefinitionInfo\<close> is the equality check on file and range.
\<close>

definition SymbolData_begin :: "nat \<Rightarrow> indexer \<Rightarrow> indexer" where
  "SymbolData_begin d st = updateSymbol d (\<lambda>x. x\<lparr>sd_begun := True\<rparr>) st"

definition addMoniker :: "nat \<Rightarrow> monikerVertex \<Rightarrow> indexer \<Rightarrow> indexer" where
  "addMoniker d m st = updateSymbol d (\<lambda>x. x\<lparr>sd_monikers := sd_monikers x @ [m]\<rparr>) st"

definition addDefinition :: "nat \<Rightarrow> tsNode \<Rightarrow> rangeVertex \<Rightarrow> indexer \<Rightarrow> indexer" where
  "addDefinition d sourceFile r st =
     updateSymbol d (\<lambda>x. x\<lparr>sd_definitions := sd_definitions x @ [(sourceFile, r)]\<rparr>) st"

definition addReference :: "nat \<Rightarrow> tsNode \<Rightarrow> rangeVertex \<Rightarrow> indexer \<Rightarrow> indexer" where
  "addReference d sourceFile r st =
     updateSymbol d (\<lambda>x. x\<lparr>sd_references := sd_references x @ [(sourceFile, r)]\<rparr>) st"

definition addDefinitionInfo :: "nat \<Rightarrow> definitionInfo \<Rightarrow> indexer \<Rightarrow> indexer" where
  "addDefinitionInfo d info st =
     updateSymbol d (\<lambda>x. x\<lparr>sd_definitionInfos := sd_definitionInfos x @ [info]\<rparr>) st"

definition hasDefinitionInfo :: "symbolData \<Rightarrow> definitionInfo \<Rightarrow> bool" where
  "hasDefinitionInfo x info = (info \<in> set (sd_definitionInfos x))"

definition addHover :: "nat \<Rightarrow> hover \<Rightarrow> indexer \<Rightarrow> indexer" where
  "addHover d h st = updateSymbol d (\<lambda>x. x\<lparr>sd_hovers := sd_hovers x @ [h]\<rparr>) st"

text \<open>The object a constructor call of a symbol data class leaves on the heap.\<close>

definition newSymbolData :: "symbolDataClass \<Rightarrow> documentVertex \<Rightarrow> indexer \<Rightarrow> nat \<times> indexer" where
  "newSymbolData c document st =
     (length (symbolHeap st),
      st\<lparr>symbolHeap := symbolHeap st @
        [\<lparr>sd_class = c, sd_document = document, sd_begun = False, sd_monikers = [],
          sd_definitions = [], sd_references = [], sd_definitionInfos = [], sd_hovers = []\<rparr>]\<rparr>)"

section \<open>The path-moniker indexer, first variant (\<open>src/indexer.ts\<close>)\<close>

definition phantomPosition :: position where
  "phantomPosition = \<lparr>line = 0, character = 0\<rparr>"

definition phantomRange :: lspRange where
  "phantomRange = \<lparr>rangeStart = phantomPosition, rangeEnd = phantomPosition\<rparr>"

definition rangeFromNode :: "tsOracle \<Rightarrow> tsNode \<Rightarrow> tsNode \<Rightarrow> bool option \<Rightarrow> lspRange" where
  "rangeFromNode orc file node includeJsDocComment =
     \<lparr>rangeStart =
        (if file = node then phantomPosition
         else getLineAndCharacterOfPosition (ast orc) file
                (getStart (ast orc) node file includeJsDocComment)),
      rangeEnd = getLineAndCharacterOfPosition (ast orc) file (getEnd (ast orc) node)\<rparr>"

definition joinTexts :: "string list option \<Rightarrow> string" where
  "joinTexts parts = concat (case parts of None \<Rightarrow> [] | Some ps \<Rightarrow> ps)"

text \<open>\<open>getHover\<close>: an exception of the language service is caught and gives no hover.\<close>

definition getHover :: "tsOracle \<Rightarrow> tsNode \<Rightarrow> tsNode \<Rightarrow> hover option" where
  "getHover orc node sourceFile =
     (case getQuickInfoAtPosition (checker orc) node sourceFile of
        Throws \<Rightarrow> None
      | Returns None \<Rightarrow> None
      | Returns (Some qi) \<Rightarrow>
          Some \<lparr>contents =
            (case displayParts qi of
               None \<Rightarrow> []
             | Some ps \<Rightarrow> [MarkedCode ''typescript'' (joinTexts (Some ps))])
            @ (case documentation qi of
                 None \<Rightarrow> []
               | Some ds \<Rightarrow> if length ds > 0 then [MarkedText (joinTexts (Some ds))] else [])\<rparr>)"

text \<open>
  Modelled from the spec: \<open>tss.createDefinitionInfo\<close>, the file of the source file and
  the range of the node.
\<close>

definition createDefinitionInfo :: "tsOracle \<Rightarrow> tsNode \<Rightarrow> tsNode \<Rightarrow> definitionInfo" where
  "createDefinitionInfo orc sourceFile node =
     \<lparr>di_file = fileName (ast orc) sourceFile, di_range = rangeFromNode orc sourceFile node None\<rparr>"

definition startsWith :: "string \<Rightarrow> string \<Rightarrow> bool" where
  "startsWith s p = (take (length p) s = p)"

definition charAt :: "string \<Rightarrow> nat \<Rightarrow> string" where
  "charAt s i = (if i < length s then [s ! i] else [])"

text \<open>\<open>Indexer.computeMonikerPath\<close>.\<close>

definition computeMonikerPath :: "tsOracle \<Rightarrow> tsNode \<Rightarrow> string option" where
  "computeMonikerPath orc sourceFile =
     (if \<not> isDeclarationFile (ast orc) sourceFile
         \<or> (startsWith (fileName (ast orc) sourceFile) (rootDir (paths orc))
            \<and> charAt (fileName (ast orc) sourceFile) (length (rootDir (paths orc))) = ''/'')
      then Some (tss_computeMonikerPath (tss orc) (projectRoot (paths orc))
                  (tss_toOutLocation (tss orc) (fileName (ast orc) sourceFile)
                     (rootDir (paths orc)) (outDir (paths orc))))
      else None)"

text \<open>\<open>Indexer.getOrCreateDocumentData\<close>.\<close>

definition getOrCreateDocumentData :: "tsOracle \<Rightarrow> tsNode \<Rightarrow> indexer \<Rightarrow> nat \<times> indexer" where
  "getOrCreateDocumentData orc sourceFile st =
     (case documentDatas st (fileName (ast orc) sourceFile) of
        Some cachedDocumentData \<Rightarrow> (cachedDocumentData, st)
      | None \<Rightarrow>
          (let (document, st1) = vertex_document (fileName (ast orc) sourceFile) st;
               externalLibrary = isSourceFileFromExternalLibrary (checker orc) sourceFile;
               monikerPath =
                 (if externalLibrary
                  then Some (tss_computeMonikerPath (tss orc) (projectRoot (paths orc))
                               (fileName (ast orc) sourceFile))
                  else computeMonikerPath orc sourceFile);
               documentData = length (documentHeap st1);
               st2 = st1\<lparr>documentHeap := documentHeap st1 @
                       [\<lparr>dd_document = document, dd_externalLibrary = externalLibrary,
                         dd_monikerPath = monikerPath, dd_begun = False, dd_ranges = []\<rparr>]\<rparr>;
               st3 = DocumentData_begin documentData st2
           in (documentData,
               st3\<lparr>documentDatas := (documentDatas st3)(fileName (ast orc) sourceFile \<mapsto> documentData)\<rparr>)))"

text \<open>
  The local variable \<open>monikerPath\<close> of \<open>getOrCreateSymbolData\<close> has the type
  \<open>string | undefined | null\<close>.
\<close>

datatype monikerPathVar = MP_undefined | MP_null | MP_string string

definition ofMonikerPath :: "string option \<Rightarrow> monikerPathVar" where
  "ofMonikerPath p = (case p of None \<Rightarrow> MP_undefined | Some s \<Rightarrow> MP_string s)"

text \<open>
  One turn of the loop over the source files of a symbol, after its document data was
  fetched: the first branch takes the path and the flag of the document, the second
  voids the path when it is not identical (\<open>!==\<close>) to the document's.
\<close>

definition monikerPathStep :: "monikerPathVar \<times> bool \<Rightarrow> documentData \<Rightarrow> monikerPathVar \<times> bool" where
  "monikerPathStep acc documentData =
     (if fst acc = MP_undefined
      then (ofMonikerPath (dd_monikerPath documentData), dd_externalLibrary documentData)
      else if fst acc \<noteq> ofMonikerPath (dd_monikerPath documentData)
      then (MP_null, snd acc)
      else acc)"

fun sourceFilesLoop ::
  "tsOracle \<Rightarrow> tsNode list \<Rightarrow> monikerPathVar \<times> bool \<Rightarrow> indexer \<Rightarrow> (monikerPathVar \<times> bool) \<times> indexer" where
  "sourceFilesLoop orc [] acc st = (acc, st)"
| "sourceFilesLoop orc (sourceFile # rest) acc st =
     (let (documentData, st1) = getOrCreateDocumentData orc sourceFile st
      in sourceFilesLoop orc rest (monikerPathStep acc (documentHeap st1 ! documentData)) st1)"

text \<open>
  The moniker path and the external-library flag of a symbol: the loop, started from
  \<open>undefined\<close> and \<open>false\<close>, and the reset of a voided path that follows it.
\<close>

definition resolveMonikerPath :: "tsOracle \<Rightarrow> tsNode list \<Rightarrow> indexer \<Rightarrow> (string option \<times> bool) \<times> indexer" where
  "resolveMonikerPath orc sourceFiles st =
     (let ((monikerPath, externalLibrary), st1) = sourceFilesLoop orc sourceFiles (MP_undefined, False) st
      in (case monikerPath of
            MP_null \<Rightarrow> ((None, False), st1)
          | MP_undefined \<Rightarrow> ((None, externalLibrary), st1)
          | MP_string s \<Rightarrow> ((Some s, externalLibrary), st1)))"

text \<open>
  The moniker of a symbol: its identifier from the moniker path and the export path,
  handed to the emitter as an import or an export moniker. An empty identifier is falsy
  and gives no moniker.
\<close>

definition monikerIdentifierOf :: "tsOracle \<Rightarrow> tsSymbol \<Rightarrow> string option \<Rightarrow> string option \<Rightarrow> string option" where
  "monikerIdentifierOf orc symbol monikerPath exportPath =
     (if tss_isSourceFile (tss orc) symbol \<and> monikerPath \<noteq> None
      then Some (tss_createMonikerIdentifier (tss orc) monikerPath None)
      else if exportPath \<noteq> None \<and> exportPath \<noteq> Some []
      then Some (tss_createMonikerIdentifier (tss orc) monikerPath exportPath)
      else None)"

definition attachMoniker :: "nat \<Rightarrow> string option \<Rightarrow> bool \<Rightarrow> indexer \<Rightarrow> indexer" where
  "attachMoniker symbolData monikerIdentifier externalLibrary st =
     (case monikerIdentifier of
        None \<Rightarrow> st
      | Some ident \<Rightarrow>
          if ident = [] then st
          else (let (moniker, st1) =
                      handleMoniker (if externalLibrary then ImportMoniker else ExportMoniker) ident st
                in addMoniker symbolData moniker st1))"

text \<open>\<open>Indexer.emitDefinition\<close>.\<close>

definition emitDefinition :: "tsOracle \<Rightarrow> tsNode \<Rightarrow> nat \<Rightarrow> string \<Rightarrow> tsNode \<Rightarrow> indexer \<Rightarrow> indexer" where
  "emitDefinition orc declaration symbolData text node st =
     (let sourceFile = getSourceFile (ast orc) declaration;
          (documentData, st1) = getOrCreateDocumentData orc sourceFile st;
          range = (if kind (ast orc) declaration = SourceFile then phantomRange
                   else rangeFromNode orc sourceFile node None);
          tag = DefinitionTag text
                  (case symbolKindMap (kind (ast orc) declaration) of
                     Some k \<Rightarrow> k | None \<Rightarrow> SK_Property)
                  (rangeFromNode orc sourceFile declaration None);
          (definition, st2) = vertex_range range tag st1;
          st3 = emit (EmitRange definition) st2;
          st4 = DocumentData_addRange documentData definition st3;
          st5 = addDefinition symbolData sourceFile definition st4;
          st6 = addDefinitionInfo symbolData (createDefinitionInfo orc sourceFile node) st5
      in if tss_isNamedDeclaration (tss orc) declaration
         then (case getHover orc (name (ast orc) declaration) sourceFile of
                 None \<Rightarrow> st6
               | Some hover \<Rightarrow> addHover symbolData hover st6)
         else st6)"

text \<open>
  The loop over the declarations at the end of \<open>getOrCreateSymbolData\<close>: a declaration
  without a text is skipped, every other one emits a definition.
\<close>

fun declarationsLoop :: "tsOracle \<Rightarrow> symbolMethods \<Rightarrow> tsSymbol \<Rightarrow> nat \<Rightarrow> tsNode list \<Rightarrow> indexer \<Rightarrow> indexer" where
  "declarationsLoop orc ms symbol symbolData [] st = st"
| "declarationsLoop orc ms symbol symbolData (declaration # rest) st =
     (case sd_getText ms (symbolHeap st ! symbolData) symbol declaration of
        None \<Rightarrow> declarationsLoop orc ms symbol symbolData rest st
      | Some (text, node) \<Rightarrow>
          declarationsLoop orc ms symbol symbolData rest
            (emitDefinition orc declaration symbolData text node st))"

text \<open>
  \<open>getOrCreateSymbolData\<close> from \<open>symbolData.begin()\<close> to \<open>this.symbolDatas.set(id, symbolData)\<close>:
  what a cache miss does once \<open>makeSymbolData\<close> has returned the new object.
\<close>

definition populateSymbolData ::
  "tsOracle \<Rightarrow> symbolMethods \<Rightarrow> string \<Rightarrow> tsSymbol \<Rightarrow> tsNode option \<Rightarrow> nat \<Rightarrow> indexer \<Rightarrow> indexer" where
  "populateSymbolData orc ms ident symbol node symbolData st =
     (let st1 = SymbolData_begin symbolData st;
          sourceFiles = sd_getSourceFiles ms (symbolHeap st1 ! symbolData) symbol node;
          locationKind = getLocationKind (tss orc) sourceFiles;
          exportPath = getExportPath (tss orc) symbol locationKind;
          ((monikerPath, externalLibrary), st2) = resolveMonikerPath orc sourceFiles st1;
          st3 = attachMoniker symbolData (monikerIdentifierOf orc symbol monikerPath exportPath)
                  externalLibrary st2;
          st4 = declarationsLoop orc ms symbol symbolData
                  (sd_getDeclarations ms (symbolHeap st3 ! symbolData) symbol node) st3
      in st4\<lparr>symbolDatas := (symbolDatas st4)(ident \<mapsto> symbolData)\<rparr>)"

text \<open>The flag \<open>ts.SymbolFlags.Transient\<close>, \<open>Alias\<close> and \<open>ExportStar\<close> of the compiler.\<close>

definition SymbolFlags_Alias :: "32 word" where
  "SymbolFlags_Alias = 0x200000"

definition SymbolFlags_ExportStar :: "32 word" where
  "SymbolFlags_ExportStar = 0x800000"

definition SymbolFlags_Transient :: "32 word" where
  "SymbolFlags_Transient = 0x2000000"

text \<open>
  \<open>Indexer.getOrCreateSymbolData\<close> and \<open>Indexer.makeSymbolData\<close> call each other;
  \<open>getOrCreateSymbolDatas\<close> is the \<open>map\<close> of \<open>getOrCreateSymbolData\<close> over the composite
  members and over the base members (the arrow function passes no node). The first
  argument bounds the depth of the calls of \<open>makeSymbolData\<close>; a cache lookup needs none.

  In \<open>makeSymbolData\<close> the tests are in the order of the source: a transient symbol that
  is a composite with members, a transient symbol with no other flag, an alias, a method,
  and the plain \<open>SymbolData\<close> otherwise.
\<close>

function (sequential) getOrCreateSymbolData ::
      "nat \<Rightarrow> tsOracle \<Rightarrow> symbolMethods \<Rightarrow> tsSymbol \<Rightarrow> tsNode option \<Rightarrow> indexer \<Rightarrow> (nat \<times> indexer) result"
  and makeSymbolData ::
      "nat \<Rightarrow> tsOracle \<Rightarrow> symbolMethods \<Rightarrow> tsSymbol \<Rightarrow> tsNode option \<Rightarrow> indexer \<Rightarrow> (nat \<times> indexer) result"
  and getOrCreateSymbolDatas ::
      "nat \<Rightarrow> tsOracle \<Rightarrow> symbolMethods \<Rightarrow> tsSymbol list \<Rightarrow> indexer \<Rightarrow> (nat list \<times> indexer) result"
where
  "getOrCreateSymbolData fuel orc ms symbol node st =
     (if currentDocumentData st = None then Some (Inl (Error ''Illegal symbol context''))
      else
        (case symbolDatas st (createSymbolKey (tss orc) symbol) of
           Some cachedSymbolData \<Rightarrow> Some (Inr (cachedSymbolData, st))
         | None \<Rightarrow>
             (case fuel of
                0 \<Rightarrow> None
              | Suc fuel' \<Rightarrow>
                  (case makeSymbolData fuel' orc ms symbol node st of
                     None \<Rightarrow> None
                   | Some (Inl e) \<Rightarrow> Some (Inl e)
                   | Some (Inr (symbolData, st1)) \<Rightarrow>
                       Some (Inr (symbolData,
                         populateSymbolData orc ms (createSymbolKey (tss orc) symbol) symbol node
                           symbolData st1))))))"
| "makeSymbolData fuel orc ms symbol node st =
     (case (currentDocumentData st, currentSourceFile st) of
        (Some currentDocument, Some sourceFile) \<Rightarrow>
          (let document = dd_document (documentHeap st ! currentDocument) in
           if tss_isTransient (tss orc) symbol \<and> tss_isComposite (tss orc) symbol node
              \<and> tss_getCompositeSymbols (tss orc) symbol node \<noteq> None
           then
             (case getOrCreateSymbolDatas fuel orc ms
                     (case tss_getCompositeSymbols (tss orc) symbol node of
                        None \<Rightarrow> [] | Some composites \<Rightarrow> composites) st of
                None \<Rightarrow> None
              | Some (Inl e) \<Rightarrow> Some (Inl e)
              | Some (Inr (datas, st1)) \<Rightarrow>
                  Some (Inr (newSymbolData (UnionOrIntersectionSymbolData datas sourceFile) document st1)))
           else if tss_isTransient (tss orc) symbol
                   \<and> (getFlags (checker orc) symbol AND NOT SymbolFlags_Transient) = 0
           then Some (Inr (newSymbolData TransientSymbolData document st))
           else if tss_isAliasSymbol (tss orc) symbol
           then
             (case getOrCreateSymbolData fuel orc ms (getAliasedSymbol (checker orc) symbol) None st of
                None \<Rightarrow> None
              | Some (Inl e) \<Rightarrow> Some (Inl e)
              | Some (Inr (aliasedSymbolData, st1)) \<Rightarrow>
                  Some (Inr (newSymbolData
                    (AliasSymbolData aliasedSymbolData
                       (getName (checker orc) symbol
                          \<noteq> getName (checker orc) (getAliasedSymbol (checker orc) symbol)))
                    document st1)))
           else if tss_isMethodSymbol (tss orc) symbol
           then
             (case getOrCreateSymbolDatas fuel orc ms
                     (case tss_getSymbolParent (tss orc) symbol of
                        None \<Rightarrow> []
                      | Some container \<Rightarrow>
                          (case findBaseMembers (tss orc) container (getName (checker orc) symbol) of
                             None \<Rightarrow> [] | Some members \<Rightarrow> members)) st of
                None \<Rightarrow> None
              | Some (Inl e) \<Rightarrow> Some (Inl e)
              | Some (Inr (baseSymbols, st1)) \<Rightarrow>
                  Some (Inr (newSymbolData (MethodSymbolData baseSymbols sourceFile) document st1)))
           else Some (Inr (newSymbolData StandardSymbolData document st)))
      | _ \<Rightarrow> Some (Inl (Error ''Illegal symbol context'')))"
| "getOrCreateSymbolDatas fuel orc ms [] st = Some (Inr ([], st))"
| "getOrCreateSymbolDatas fuel orc ms (symbol # rest) st =
     (case getOrCreateSymbolData fuel orc ms symbol None st of
        None \<Rightarrow> None
      | Some (Inl e) \<Rightarrow> Some (Inl e)
      | Some (Inr (symbolData, st1)) \<Rightarrow>
          (case getOrCreateSymbolDatas fuel orc ms rest st1 of
             None \<Rightarrow> None
           | Some (Inl e) \<Rightarrow> Some (Inl e)
           | Some (Inr (datas, st2)) \<Rightarrow> Some (Inr (symbolData # datas, st2))))"
  by pat_completeness auto

termination
  by (relation "inv_image (less_than <*lex*> less_than <*lex*> less_than)
        (\<lambda>x. case x of
           Inl (fuel, orc, ms, symbol, node, st) \<Rightarrow> (fuel, 0::nat, 0::nat)
         | Inr (Inl (fuel, orc, ms, symbol, node, st)) \<Rightarrow> (fuel, 2, 0)
         | Inr (Inr (fuel, orc, ms, symbols, st)) \<Rightarrow> (fuel, 1, length symbols))") auto

text \<open>\<open>Indexer.visitSymbol\<close>. The current file and document are those tested on entry:
  no callee assigns them.\<close>

definition visitSymbol :: "nat \<Rightarrow> tsOracle \<Rightarrow> symbolMethods \<Rightarrow> tsNode \<Rightarrow> indexer \<Rightarrow> indexer result" where
  "visitSymbol fuel orc ms node st =
     (case (currentSourceFile st, currentDocumentData st) of
        (Some sourceFile, Some currentDocument) \<Rightarrow>
          (case getSymbolAtLocation (checker orc) node of
             None \<Rightarrow> Some (Inr st)
           | Some symbol \<Rightarrow>
               andThen (getOrCreateSymbolData fuel orc ms symbol (Some node) st)
                 (\<lambda>(symbolData, st1).
                    if hasDefinitionInfo (symbolHeap st1 ! symbolData)
                         (createDefinitionInfo orc sourceFile node)
                    then Some (Inr st1)
                    else
                      (let (reference, st2) =
                             vertex_range (rangeFromNode orc sourceFile node None)
                               (ReferenceTag (node_getText (ast orc) node)) st1;
                           st3 = emit (EmitRange reference) st2;
                           st4 = DocumentData_addRange currentDocument reference st3
                       in Some (Inr (addReference symbolData sourceFile reference st4)))))
      | _ \<Rightarrow> Some (Inr st))"

text \<open>\<open>Indexer.getSymbolAtLocation\<close>, the private method with the fallback.\<close>

definition Indexer_getSymbolAtLocation :: "tsOracle \<Rightarrow> tsNode \<Rightarrow> tsSymbol option" where
  "Indexer_getSymbolAtLocation orc node =
     (case getSymbolAtLocation (checker orc) node of
        None \<Rightarrow> getSymbolFromNode (tss orc) node
      | Some result \<Rightarrow> Some result)"

text \<open>\<open>Indexer.exportSymbol\<close>: its body is a comment, it does nothing.\<close>

definition exportSymbol :: "tsSymbol \<Rightarrow> string \<Rightarrow> string option \<Rightarrow> tsNode option \<Rightarrow> indexer \<Rightarrow> indexer" where
  "exportSymbol symbol monikerPath newName locationNode st = st"

text \<open>\<open>Indexer.getExportSymbolName\<close>.\<close>

definition getExportSymbolName :: "tsOracle \<Rightarrow> tsSymbol \<Rightarrow> string" where
  "getExportSymbolName orc symbol =
     (let escapedName = getEscapedName (checker orc) symbol;
          unquoted =
            (if charAt escapedName 0 = [CHR 0x22] \<or> charAt escapedName 0 = [CHR 0x27]
             then take (length escapedName - 2) (drop 1 escapedName)
             else escapedName)
      in concat (map (\<lambda>c. if c = CHR ''.'' then ''..'' else [c]) unquoted))"

text \<open>
  The loop over the elements of a named export clause in \<open>postVisit\<close>: an element
  without a symbol or without an aliased symbol is skipped (\<open>continue\<close>), a document
  without a moniker path ends the method (\<open>return\<close>).
\<close>

fun namedExportsLoop ::
  "nat \<Rightarrow> tsOracle \<Rightarrow> symbolMethods \<Rightarrow> nat \<Rightarrow> tsNode list \<Rightarrow> indexer \<Rightarrow> indexer result" where
  "namedExportsLoop fuel orc ms currentDocument [] st = Some (Inr st)"
| "namedExportsLoop fuel orc ms currentDocument (element # rest) st =
     (case Indexer_getSymbolAtLocation orc (name (ast orc) element) of
        None \<Rightarrow> namedExportsLoop fuel orc ms currentDocument rest st
      | Some symbol \<Rightarrow>
          (case dd_monikerPath (documentHeap st ! currentDocument) of
             None \<Rightarrow> Some (Inr st)
           | Some monikerPath \<Rightarrow>
               (case getOrCreateSymbolData fuel orc ms symbol None st of
                  None \<Rightarrow> None
                | Some (Inl e) \<Rightarrow> Some (Inl e)
                | Some (Inr (symbolData, st1)) \<Rightarrow>
                    (case (if (getFlags (checker orc) symbol AND SymbolFlags_Alias) \<noteq> 0
                           then Some (getAliasedSymbol (checker orc) symbol)
                           else (case propertyName (ast orc) element of
                                   None \<Rightarrow> None
                                 | Some p \<Rightarrow> Indexer_getSymbolAtLocation orc p)) of
                       None \<Rightarrow> namedExportsLoop fuel orc ms currentDocument rest st1
                     | Some aliasedSymbol \<Rightarrow>
                         namedExportsLoop fuel orc ms currentDocument rest
                           (exportSymbol aliasedSymbol monikerPath
                              (Some (getExportSymbolName orc symbol)) (currentSourceFile st1) st1)))))"

text \<open>\<open>Indexer.postVisit\<close>.\<close>

definition postVisit :: "nat \<Rightarrow> tsOracle \<Rightarrow> symbolMethods \<Rightarrow> tsNode \<Rightarrow> indexer \<Rightarrow> indexer result" where
  "postVisit fuel orc ms node st =
     (case kind (ast orc) node of
        SourceFile \<Rightarrow> Some (Inr (st\<lparr>currentSourceFile := None, currentDocumentData := None\<rparr>))
      | ExportAssignment \<Rightarrow>
          (case currentDocumentData st of
             None \<Rightarrow> Some (Inl (Error ''Illegal statement context''))
           | Some currentDocument \<Rightarrow>
               (case Indexer_getSymbolAtLocation orc node of
                  None \<Rightarrow> Some (Inr st)
                | Some symbol \<Rightarrow>
                    andThen (getOrCreateSymbolData fuel orc ms symbol None st)
                      (\<lambda>(symbolData, st1).
                         (case dd_monikerPath (documentHeap st1 ! currentDocument) of
                            None \<Rightarrow> Some (Inr st1)
                          | Some monikerPath \<Rightarrow>
                              (case Indexer_getSymbolAtLocation orc (expression (ast orc) node) of
                                 None \<Rightarrow> Some (Inr st1)
                               | Some aliasedSymbol \<Rightarrow>
                                   Some (Inr (exportSymbol aliasedSymbol monikerPath
                                     (Some (getExportSymbolName orc symbol))
                                     (currentSourceFile st1) st1)))))))
      | ExportDeclaration \<Rightarrow>
          (case currentDocumentData st of
             None \<Rightarrow> Some (Inl (Error ''Illegal statement context''))
           | Some currentDocument \<Rightarrow>
               (case (case exportClause (ast orc) node of
                        None \<Rightarrow> None
                      | Some clause \<Rightarrow>
                          if kind (ast orc) clause = NamedExports then Some clause else None) of
                  Some clause \<Rightarrow>
                    namedExportsLoop fuel orc ms currentDocument (elements (ast orc) clause) st
                | None \<Rightarrow>
                    (case moduleSpecifier (ast orc) node of
                       None \<Rightarrow> Some (Inr st)
                     | Some specifier \<Rightarrow>
                         (case Indexer_getSymbolAtLocation orc node of
                            None \<Rightarrow> Some (Inr st)
                          | Some symbol \<Rightarrow>
                              if (getFlags (checker orc) symbol AND SymbolFlags_ExportStar) = 0
                              then Some (Inr st)
                              else
                                (case dd_monikerPath (documentHeap st ! currentDocument) of
                                   None \<Rightarrow> Some (Inr st)
                                 | Some monikerPath \<Rightarrow>
                                     andThen (getOrCreateSymbolData fuel orc ms symbol None st)
                                       (\<lambda>(symbolData, st1).
                                          (case Indexer_getSymbolAtLocation orc specifier of
                                             None \<Rightarrow> Some (Inr st1)
                                           | Some aliasedSymbol \<Rightarrow>
                                               if \<not> tss_isSourceFile (tss orc) aliasedSymbol
                                               then Some (Inr st1)
                                               else
                                                 andThen (getOrCreateSymbolData fuel orc ms
                                                            aliasedSymbol None st1)
                                                   (\<lambda>(aliasedData, st2).
                                                      Some (Inr (exportSymbol aliasedSymbol
                                                        monikerPath (Some [])
                                                        (currentSourceFile st2) st2))))))))))
      | _ \<Rightarrow> Some (Inr st))"

text \<open>\<open>Indexer.preVisit\<close>: the result says whether the children are visited.\<close>

definition preVisit :: "nat \<Rightarrow> tsOracle \<Rightarrow> symbolMethods \<Rightarrow> tsNode \<Rightarrow> indexer \<Rightarrow> (bool \<times> indexer) result" where
  "preVisit fuel orc ms node st =
     (if kind (ast orc) node = SourceFile
      then (let (documentData, st1) =
                  getOrCreateDocumentData orc node (st\<lparr>currentSourceFile := Some node\<rparr>)
            in Some (Inr (True, st1\<lparr>currentDocumentData := Some documentData\<rparr>)))
      else if kind (ast orc) node = ExportAssignment \<or> kind (ast orc) node = Identifier
              \<or> kind (ast orc) node = StringLiteral
      then andThen (visitSymbol fuel orc ms node st) (\<lambda>st1. Some (Inr (False, st1)))
      else Some (Inr (True, st)))"

text \<open>
  A syntax tree as \<open>forEachChild\<close> walks it: a node and the trees of its children, in
  order.
\<close>

datatype syntaxTree = SyntaxTree tsNode "syntaxTree list"

text \<open>\<open>Indexer.visit\<close>; \<open>visitChildren\<close> is \<open>node.forEachChild(this.visit.bind(this))\<close>.\<close>

fun visit :: "nat \<Rightarrow> tsOracle \<Rightarrow> symbolMethods \<Rightarrow> syntaxTree \<Rightarrow> indexer \<Rightarrow> indexer result"
  and visitChildren :: "nat \<Rightarrow> tsOracle \<Rightarrow> symbolMethods \<Rightarrow> syntaxTree list \<Rightarrow> indexer \<Rightarrow> indexer result"
where
  "visit fuel orc ms (SyntaxTree node children) st =
     (case preVisit fuel orc ms node st of
        None \<Rightarrow> None
      | Some (Inl e) \<Rightarrow> Some (Inl e)
      | Some (Inr (descend, st1)) \<Rightarrow>
          if descend
          then (case visitChildren fuel orc ms children st1 of
                  None \<Rightarrow> None
                | Some (Inl e) \<Rightarrow> Some (Inl e)
                | Some (Inr st2) \<Rightarrow> postVisit fuel orc ms node st2)
          else Some (Inr st1))"
| "visitChildren fuel orc ms [] st = Some (Inr st)"
| "visitChildren fuel orc ms (child # rest) st =
     (case visit fuel orc ms child st of
        None \<Rightarrow> None
      | Some (Inl e) \<Rightarrow> Some (Inl e)
      | Some (Inr st1) \<Rightarrow> visitChildren fuel orc ms rest st1)"

section \<open>The path-moniker indexer, second variant: the symbol cache\<close>

text \<open>
  \<open>emitDefinition\<close> of \<open>src/v2/indexer.ts\<close> is the one of \<open>src/indexer.ts\<close>, with the
  resolver type handed on to the methods of the symbol data (modelled as above).
\<close>

definition emitDefinition_v2 ::
  "tsOracle \<Rightarrow> tsNode \<Rightarrow> nat \<Rightarrow> string \<Rightarrow> tsNode \<Rightarrow> resolverType \<Rightarrow> indexer \<Rightarrow> indexer" where
  "emitDefinition_v2 orc declaration symbolData text node rt st =
     emitDefinition orc declaration symbolData text node st"

fun declarationsLoop_v2 ::
  "tsOracle \<Rightarrow> tsSymbol \<Rightarrow> resolverType \<Rightarrow> nat \<Rightarrow> tsNode list \<Rightarrow> indexer \<Rightarrow> indexer" where
  "declarationsLoop_v2 orc symbol rt symbolData [] st = st"
| "declarationsLoop_v2 orc symbol rt symbolData (declaration # rest) st =
     (case getText orc symbol declaration rt of
        None \<Rightarrow> declarationsLoop_v2 orc symbol rt symbolData rest st
      | Some (text, node) \<Rightarrow>
          declarationsLoop_v2 orc symbol rt symbolData rest
            (emitDefinition_v2 orc declaration symbolData text node rt st))"

text \<open>
  The moniker of the second variant comes from the import linker or, when the writer
  context has one, from the export linker (\<open>exportLinker?.handleMoniker2\<close>).
\<close>

definition attachMoniker_v2 :: "bool \<Rightarrow> nat \<Rightarrow> string option \<Rightarrow> bool \<Rightarrow> indexer \<Rightarrow> indexer" where
  "attachMoniker_v2 exportLinker symbolData monikerIdentifier externalLibrary st =
     (if \<not> externalLibrary \<and> \<not> exportLinker then st
      else attachMoniker symbolData monikerIdentifier externalLibrary st)"

text \<open>
  \<open>Indexer.getOrCreateSymbolData\<close> of \<open>src/v2/indexer.ts\<close>. Every case of its \<open>switch\<close>
  is a comment, so each resolver type builds the plain \<open>SymbolData\<close>, and the method
  calls no other one of its kind.
\<close>

definition getOrCreateSymbolData_v2 ::
  "tsOracle \<Rightarrow> bool \<Rightarrow> tsSymbol \<Rightarrow> tsNode \<Rightarrow> resolverType \<Rightarrow> indexer \<Rightarrow> error + nat \<times> indexer" where
  "getOrCreateSymbolData_v2 orc exportLinker symbol node rt st =
     (case currentDocumentData st of
        None \<Rightarrow> Inl (Error ''illegal symbol context'')
      | Some currentDocument \<Rightarrow>
          (case symbolDatas st (createSymbolKey (tss orc) symbol) of
             Some cachedSymbolData \<Rightarrow> Inr (cachedSymbolData, st)
           | None \<Rightarrow>
               (let (symbolData, st0) =
                      newSymbolData StandardSymbolData
                        (dd_document (documentHeap st ! currentDocument)) st;
                    st1 = SymbolData_begin symbolData st0;
                    sourceFiles = getSourceFiles orc symbol node rt;
                    locationKind = getLocationKind (tss orc) sourceFiles;
                    exportPath = getExportPath (tss orc) symbol locationKind;
                    ((monikerPath, externalLibrary), st2) = resolveMonikerPath orc sourceFiles st1;
                    st3 = attachMoniker_v2 exportLinker symbolData
                            (monikerIdentifierOf orc symbol monikerPath exportPath)
                            externalLibrary st2;
                    st4 = declarationsLoop_v2 orc symbol rt symbolData
                            (getDeclarations orc symbol node rt) st3
                in Inr (symbolData,
                        st4\<lparr>symbolDatas := (symbolDatas st4)(createSymbolKey (tss orc) symbol \<mapsto> symbolData)\<rparr>))))"

text \<open>
  The symbol cache and the nodes made so far fit together when every node on the heap is
  the node of exactly one key, and every key of the cache has its node on the heap: no
  key has had two nodes made for it.
\<close>

definition cacheInv :: "indexer \<Rightarrow> bool" where
  "cacheInv st =
     ((\<forall>d<length (symbolHeap st). \<exists>k. symbolDatas st k = Some d)
      \<and> (\<forall>k d. symbolDatas st k = Some d \<longrightarrow> d < length (symbolHeap st))
      \<and> (\<forall>k k' d. symbolDatas st k = Some d \<and> symbolDatas st k' = Some d \<longrightarrow> k = k'))"

text \<open>
  The symbols \<open>makeSymbolData\<close> of the first variant calls \<open>getOrCreateSymbolData\<close> for:
  the members of a composite, the target of an alias, the base members of a method.
\<close>

definition relatedSymbols :: "tsOracle \<Rightarrow> tsSymbol \<Rightarrow> tsNode option \<Rightarrow> tsSymbol list" where
  "relatedSymbols orc symbol node =
     (if tss_isTransient (tss orc) symbol \<and> tss_isComposite (tss orc) symbol node
         \<and> tss_getCompositeSymbols (tss orc) symbol node \<noteq> None
      then (case tss_getCompositeSymbols (tss orc) symbol node of
              None \<Rightarrow> [] | Some composites \<Rightarrow> composites)
      else if tss_isTransient (tss orc) symbol
              \<and> (getFlags (checker orc) symbol AND NOT SymbolFlags_Transient) = 0
      then []
      else if tss_isAliasSymbol (tss orc) symbol
      then [getAliasedSymbol (checker orc) symbol]
      else if tss_isMethodSymbol (tss orc) symbol
      then (case tss_getSymbolParent (tss orc) symbol of
              None \<Rightarrow> []
            | Some container \<Rightarrow>
                (case findBaseMembers (tss orc) container (getName (checker orc) symbol) of
                   None \<Rightarrow> [] | Some members \<Rightarrow> members))
      else [])"

text \<open>
  The relation is acyclic when a rank goes down along it, whatever the use site, and
  symbols with one key have one rank.
\<close>

definition acyclicSymbols :: "tsOracle \<Rightarrow> (tsSymbol \<Rightarrow> nat) \<Rightarrow> bool" where
  "acyclicSymbols orc rank =
     ((\<forall>symbol node s. s \<in> set (relatedSymbols orc symbol node) \<longrightarrow> rank s < rank symbol)
      \<and> (\<forall>s s'. createSymbolKey (tss orc) s = createSymbolKey (tss orc) s'
            \<longrightarrow> rank s = rank s'))"

section \<open>The descriptor indexer (\<open>src/Visitor.ts\<close> and the \<open>Indexer\<close> that drives it)\<close>

text \<open>
  Modelled from the spec: a descriptor is one named segment of a symbol (package, type,
  term, method or meta); \<open>./Descriptor\<close> is absent.
\<close>

datatype Descriptor =
    D_package string | D_type string | D_term string | D_method string string | D_meta string

text \<open>
  Modelled from the spec: a symbol is empty, local (a counter value), the symbol of a
  package, or global (an owner and a descriptor); \<open>./LsifSymbol\<close> and \<open>./Packages\<close> are
  absent. \<open>isEmptyOrLocal\<close> holds of the first two.
\<close>

datatype LsifSymbol =
    LS_empty | LS_local nat | LS_package string string | LS_global LsifSymbol Descriptor

definition isEmptyOrLocal :: "LsifSymbol \<Rightarrow> bool" where
  "isEmptyOrLocal s = (case s of LS_empty \<Rightarrow> True | LS_local n \<Rightarrow> True | _ \<Rightarrow> False)"

text \<open>
  Modelled from the spec: \<open>Counter.next\<close> returns the count and increments it, from 0
  (\<open>./Counter\<close> is absent; the spec has the suffixes \<open>x0\<close>, \<open>x1\<close>, and so on).
\<close>

definition Counter_next :: "nat \<Rightarrow> nat \<times> nat" where
  "Counter_next n = (n, Suc n)"

text \<open>The role bit \<open>lsif_typed.SymbolRole.Definition\<close>.\<close>

definition SymbolRole_Definition :: nat where
  "SymbolRole_Definition = 1"

record occurrence =
  occ_range :: "nat list"
  occ_symbol :: LsifSymbol
  occ_symbol_roles :: nat

record document =
  relative_path :: string
  occurrences :: "occurrence list"

text \<open>
  What the descriptor indexer is given besides the compiler: the file names of the
  configuration, the project root of the options, the package symbol of a file
  (\<open>Packages.symbol\<close>, name and version), \<open>path.relative\<close> and the range of a node
  (\<open>Range.fromNode(node).toLsif()\<close>).
\<close>

record typedEnv =
  env_fileNames :: "string list"
  env_project :: string
  packages_symbol :: "string \<Rightarrow> (string \<times> string) option"
  path_relative :: "string \<Rightarrow> string \<Rightarrow> string"
  range_toLsif :: "tsNode \<Rightarrow> nat list"

text \<open>
  The fields of a \<open>Visitor\<close> that change. \<open>lsifSymbol\<close>, \<open>newLocalSymbol\<close> and \<open>cached\<close>
  read and write the counters and the two caches only, so they are grouped;
  \<open>symbolsCache\<close> is the map the \<open>Indexer\<close> shares among its visitors.
\<close>

record symbolTables =
  localCounter :: nat
  propertyCounters :: "string \<rightharpoonup> nat"
  localSymbolCache :: "tsNode \<rightharpoonup> LsifSymbol"
  symbolsCache :: "tsNode \<rightharpoonup> LsifSymbol"

record visitor =
  tables :: symbolTables
  doc :: document

text \<open>The decimal digits of a number, as a template string prints it.\<close>

function showNat :: "nat \<Rightarrow> string" where
  "showNat n =
     (if n < 10 then [char_of (48 + n)] else showNat (n div 10) @ [char_of (48 + n mod 10)])"
  by pat_completeness auto

termination
  by (relation "measure id") auto

definition isAnonymousContainerOfSymbols :: "tsOracle \<Rightarrow> tsNode \<Rightarrow> bool" where
  "isAnonymousContainerOfSymbols orc node =
     (kind (ast orc) node = ModuleBlock \<or> kind (ast orc) node = ImportDeclaration
      \<or> kind (ast orc) node = ImportClause \<or> kind (ast orc) node = NamedImports
      \<or> kind (ast orc) node = VariableStatement \<or> kind (ast orc) node = VariableDeclarationList)"

text \<open>\<open>Visitor.declarationName\<close>: only a function declaration may have no name.\<close>

definition declarationName :: "tsOracle \<Rightarrow> tsNode \<Rightarrow> tsNode option" where
  "declarationName orc node =
     (if kind (ast orc) node = FunctionDeclaration then optionalName (ast orc) node
      else if kind (ast orc) node = EnumDeclaration \<or> kind (ast orc) node = VariableDeclaration
        \<or> kind (ast orc) node = PropertyDeclaration \<or> kind (ast orc) node = MethodSignature
        \<or> kind (ast orc) node = MethodDeclaration \<or> kind (ast orc) node = PropertySignature
        \<or> kind (ast orc) node = ModuleDeclaration \<or> kind (ast orc) node = PropertyAssignment
        \<or> kind (ast orc) node = ShorthandPropertyAssignment
        \<or> kind (ast orc) node = InterfaceDeclaration
      then Some (name (ast orc) node)
      else None)"

text \<open>
  \<open>this.checker.getTypeAtLocation(node).symbol.declarations || []\<close>. The type of a node
  need not have a symbol (the type \<open>number\<close> has none): reading \<open>declarations\<close> of
  \<open>undefined\<close> throws a \<open>TypeError\<close>.
\<close>

definition typeDeclarations :: "tsOracle \<Rightarrow> tsNode \<Rightarrow> tsNode list thrown" where
  "typeDeclarations orc node =
     (case typeSymbolAtLocation (checker orc) node of
        None \<Rightarrow> Throws
      | Some s \<Rightarrow> Returns (case declarations (checker orc) s of None \<Rightarrow> [] | Some ds \<Rightarrow> ds))"

definition undefinedSymbol :: error where
  "undefinedSymbol = TypeError ''Cannot read properties of undefined (reading declarations)''"

text \<open>\<open>node.name?.getText() || 'boom'\<close>: the empty text is falsy.\<close>

definition nameTextOrBoom :: "tsOracle \<Rightarrow> tsNode \<Rightarrow> string" where
  "nameTextOrBoom orc node =
     (case (if kind (ast orc) node = FunctionDeclaration then optionalName (ast orc) node
            else Some (name (ast orc) node)) of
        None \<Rightarrow> ''boom''
      | Some n \<Rightarrow> if node_getText (ast orc) n = [] then ''boom'' else node_getText (ast orc) n)"

text \<open>
  \<open>Visitor.descriptor\<close>. The result is \<open>None\<close> when the budget of nested calls is used
  up, \<open>Some (Inl e)\<close> when the call throws, \<open>Some (Inr None)\<close> for \<open>undefined\<close>. A class
  declaration falls through to the later tests, as in the source.
\<close>

fun descriptor :: "nat \<Rightarrow> tsOracle \<Rightarrow> tsNode \<Rightarrow> Descriptor option result" where
  "descriptor fuel orc node =
     (if kind (ast orc) node = InterfaceDeclaration
      then Some (Inr (Some (D_type (node_getText (ast orc) (name (ast orc) node)))))
      else if kind (ast orc) node = FunctionDeclaration \<or> kind (ast orc) node = MethodSignature
      then Some (Inr (Some (D_method (nameTextOrBoom orc node) [])))
      else if kind (ast orc) node = PropertyDeclaration \<or> kind (ast orc) node = PropertySignature
              \<or> kind (ast orc) node = VariableDeclaration
      then Some (Inr (Some (D_term (node_getText (ast orc) (name (ast orc) node)))))
      else if kind (ast orc) node = ModuleDeclaration
      then Some (Inr (Some (D_package (node_getText (ast orc) (name (ast orc) node)))))
      else if kind (ast orc) node = ImportSpecifier
      then (case typeDeclarations orc node of
              Throws \<Rightarrow> Some (Inl undefinedSymbol)
            | Returns [] \<Rightarrow> Some (Inr None)
            | Returns (declaration # _) \<Rightarrow>
                (case fuel of 0 \<Rightarrow> None | Suc fuel' \<Rightarrow> descriptor fuel' orc declaration))
      else Some (Inr None))"

definition newLocalSymbol :: "tsNode \<Rightarrow> symbolTables \<Rightarrow> LsifSymbol \<times> symbolTables" where
  "newLocalSymbol node v =
     (let (n, counter) = Counter_next (localCounter v);
          symbol = LS_local n
      in (symbol, v\<lparr>localCounter := counter,
                     localSymbolCache := (localSymbolCache v)(node \<mapsto> symbol)\<rparr>))"

definition cached :: "tsNode \<Rightarrow> LsifSymbol \<Rightarrow> symbolTables \<Rightarrow> LsifSymbol \<times> symbolTables" where
  "cached node symbol v = (symbol, v\<lparr>symbolsCache := (symbolsCache v)(node \<mapsto> symbol)\<rparr>)"

text \<open>
  \<open>Visitor.lsifSymbol\<close>. A cache hit, a block and a source file need no budget; every
  other node spends one unit on the calls it makes for its source file, its parent or
  the declaration of its type. The result is \<open>None\<close> when the budget is used up and
  \<open>Some (Inl e)\<close> when the call throws \<open>e\<close>.
\<close>

fun lsifSymbol :: "nat \<Rightarrow> tsOracle \<Rightarrow> typedEnv \<Rightarrow> tsNode \<Rightarrow> symbolTables \<Rightarrow> (LsifSymbol \<times> symbolTables) result" where
  "lsifSymbol fuel orc env node v =
     (case (case symbolsCache v node of Some s \<Rightarrow> Some s | None \<Rightarrow> localSymbolCache v node) of
        Some fromCache \<Rightarrow> Some (Inr (fromCache, v))
      | None \<Rightarrow>
          if kind (ast orc) node = Block then Some (Inr (LS_empty, v))
          else if kind (ast orc) node = SourceFile
          then (case packages_symbol env (fileName (ast orc) node) of
                  None \<Rightarrow> Some (Inr (cached node LS_empty v))
                | Some (pname, pversion) \<Rightarrow> Some (Inr (cached node (LS_package pname pversion) v)))
          else
            (case fuel of
               0 \<Rightarrow> None
             | Suc fuel' \<Rightarrow>
                 if kind (ast orc) node = PropertyAssignment
                    \<or> kind (ast orc) node = ShorthandPropertyAssignment
                 then
                   (let nm = node_getText (ast orc) (name (ast orc) node);
                        v1 = (case propertyCounters v nm of
                                None \<Rightarrow> v\<lparr>propertyCounters := (propertyCounters v)(nm \<mapsto> 0)\<rparr>
                              | Some counter \<Rightarrow> v)
                    in case lsifSymbol fuel' orc env (getSourceFile (ast orc) node) v1 of
                         None \<Rightarrow> None
                       | Some (Inl e) \<Rightarrow> Some (Inl e)
                       | Some (Inr (owner, v2)) \<Rightarrow>
                           (let (n, counter) =
                                  Counter_next (case propertyCounters v2 nm of None \<Rightarrow> 0 | Some c \<Rightarrow> c);
                                v3 = v2\<lparr>propertyCounters := (propertyCounters v2)(nm \<mapsto> counter)\<rparr>
                            in Some (Inr (cached node (LS_global owner (D_meta (nm @ showNat n))) v3))))
                 else
                   (case lsifSymbol fuel' orc env (parent (ast orc) node) v of
                      None \<Rightarrow> None
                    | Some (Inl e) \<Rightarrow> Some (Inl e)
                    | Some (Inr (owner, v1)) \<Rightarrow>
                        if isEmptyOrLocal owner then Some (Inr (newLocalSymbol node v1))
                        else if isAnonymousContainerOfSymbols orc node
                        then (case lsifSymbol fuel' orc env (parent (ast orc) node) v1 of
                                None \<Rightarrow> None
                              | Some (Inl e) \<Rightarrow> Some (Inl e)
                              | Some (Inr (symbol, v2)) \<Rightarrow> Some (Inr (cached node symbol v2)))
                        else
                          (case (if kind (ast orc) node = ImportSpecifier
                                 then typeDeclarations orc node else Returns []) of
                             Throws \<Rightarrow> Some (Inl undefinedSymbol)
                           | Returns (declaration # _) \<Rightarrow> lsifSymbol fuel' orc env declaration v1
                           | Returns [] \<Rightarrow>
                               (case descriptor fuel' orc node of
                                  None \<Rightarrow> None
                                | Some (Inl e) \<Rightarrow> Some (Inl e)
                                | Some (Inr None) \<Rightarrow> Some (Inr (newLocalSymbol node v1))
                                | Some (Inr (Some desc)) \<Rightarrow>
                                    Some (Inr (cached node (LS_global owner desc) v1)))))))"

declare lsifSymbol.simps [simp del] descriptor.simps [simp del] showNat.simps [simp del]

text \<open>
  The loop of \<open>visit\<close> over the declarations of the symbol of an identifier. A
  declaration whose symbol throws ends the loop, and the visit, with that error.
\<close>

fun pushOccurrences ::
  "nat \<Rightarrow> tsOracle \<Rightarrow> typedEnv \<Rightarrow> nat list \<Rightarrow> nat \<Rightarrow> tsNode list \<Rightarrow> visitor \<Rightarrow> visitor result" where
  "pushOccurrences fuel orc env rng role [] v = Some (Inr v)"
| "pushOccurrences fuel orc env rng role (declaration # rest) v =
     (case lsifSymbol fuel orc env declaration (tables v) of
        None \<Rightarrow> None
      | Some (Inl e) \<Rightarrow> Some (Inl e)
      | Some (Inr (symbol, t1)) \<Rightarrow>
          pushOccurrences fuel orc env rng role rest
            (v\<lparr>tables := t1,
               doc := (doc v)\<lparr>occurrences := occurrences (doc v) @
                 [\<lparr>occ_range = rng, occ_symbol = symbol, occ_symbol_roles = role\<rparr>]\<rparr>\<rparr>))"

text \<open>\<open>sym?.declarations || []\<close> for the symbol at a node.\<close>

definition declarationsAt :: "tsOracle \<Rightarrow> tsNode \<Rightarrow> tsNode list" where
  "declarationsAt orc node =
     (case getSymbolAtLocation (checker orc) node of
        None \<Rightarrow> []
      | Some s \<Rightarrow> (case declarations (checker orc) s of None \<Rightarrow> [] | Some ds \<Rightarrow> ds))"

text \<open>The body of \<open>if (ts.isIdentifier(node))\<close> in \<open>Visitor.visit\<close>.\<close>

definition visitIdentifier :: "nat \<Rightarrow> tsOracle \<Rightarrow> typedEnv \<Rightarrow> tsNode \<Rightarrow> visitor \<Rightarrow> visitor result" where
  "visitIdentifier fuel orc env node v =
     (let role = (if declarationName orc (parent (ast orc) node) = Some node
                  then SymbolRole_Definition else 0);
          rng = range_toLsif env node
      in pushOccurrences fuel orc env rng role (declarationsAt orc node) v)"

text \<open>\<open>Visitor.visit\<close>; \<open>Visitor_visitChildren\<close> is \<open>ts.forEachChild\<close>.\<close>

fun Visitor_visit :: "nat \<Rightarrow> tsOracle \<Rightarrow> typedEnv \<Rightarrow> syntaxTree \<Rightarrow> visitor \<Rightarrow> visitor result"
  and Visitor_visitChildren :: "nat \<Rightarrow> tsOracle \<Rightarrow> typedEnv \<Rightarrow> syntaxTree list \<Rightarrow> visitor \<Rightarrow> visitor result"
where
  "Visitor_visit fuel orc env (SyntaxTree node children) v =
     (case (if kind (ast orc) node = Identifier then visitIdentifier fuel orc env node v
            else Some (Inr v)) of
        None \<Rightarrow> None
      | Some (Inl e) \<Rightarrow> Some (Inl e)
      | Some (Inr v1) \<Rightarrow> Visitor_visitChildren fuel orc env children v1)"
| "Visitor_visitChildren fuel orc env [] v = Some (Inr v)"
| "Visitor_visitChildren fuel orc env (child # rest) v =
     (case Visitor_visit fuel orc env child v of
        None \<Rightarrow> None
      | Some (Inl e) \<Rightarrow> Some (Inl e)
      | Some (Inr v1) \<Rightarrow> Visitor_visitChildren fuel orc env rest v1)"

definition Visitor_index :: "nat \<Rightarrow> tsOracle \<Rightarrow> typedEnv \<Rightarrow> syntaxTree \<Rightarrow> visitor \<Rightarrow> visitor result" where
  "Visitor_index fuel orc env sourceFile v = Visitor_visit fuel orc env sourceFile v"

text \<open>
  What \<open>options.writeIndex\<close> is given: the metadata with the project root, then one
  index per document.
\<close>

datatype lsifIndex = IndexMetadata string | IndexDocuments "document list"

record typedIndexer =
  written :: "lsifIndex list"
  indexer_symbolsCache :: "tsNode \<rightharpoonup> LsifSymbol"

text \<open>
  \<open>new Visitor(...)\<close>: a counter and two maps of its own, the shared symbols cache and
  the document.
\<close>

definition newVisitor :: "(tsNode \<rightharpoonup> LsifSymbol) \<Rightarrow> document \<Rightarrow> visitor" where
  "newVisitor cache d =
     \<lparr>tables = \<lparr>localCounter = 0, propertyCounters = Map.empty,
                localSymbolCache = Map.empty, symbolsCache = cache\<rparr>,
      doc = d\<rparr>"

definition newDocument :: "tsOracle \<Rightarrow> typedEnv \<Rightarrow> tsNode \<Rightarrow> document" where
  "newDocument orc env sourceFile =
     \<lparr>relative_path = path_relative env (env_project env) (fileName (ast orc) sourceFile),
      occurrences = []\<rparr>"

text \<open>
  The loop of \<open>Indexer.index\<close> over \<open>program.getSourceFiles()\<close>. The second component
  says how the run ended: \<open>Some (Inr ())\<close> when it returned, \<open>Some (Inl e)\<close> when a visitor
  threw \<open>e\<close> (nothing catches it), \<open>None\<close> when a visitor has not returned within the
  budget. What was written before stays written.
\<close>

fun indexSourceFiles ::
  "nat \<Rightarrow> tsOracle \<Rightarrow> typedEnv \<Rightarrow> syntaxTree list \<Rightarrow> typedIndexer \<Rightarrow> typedIndexer \<times> unit result" where
  "indexSourceFiles fuel orc env [] ix = (ix, Some (Inr ()))"
| "indexSourceFiles fuel orc env (SyntaxTree sourceFile children # rest) ix =
     (if fileName (ast orc) sourceFile \<in> set (env_fileNames env)
      then
        (case Visitor_index fuel orc env (SyntaxTree sourceFile children)
                (newVisitor (indexer_symbolsCache ix) (newDocument orc env sourceFile)) of
           None \<Rightarrow> (ix, None)
         | Some (Inl e) \<Rightarrow> (ix, Some (Inl e))
         | Some (Inr v) \<Rightarrow>
             indexSourceFiles fuel orc env rest
               (ix\<lparr>written := written ix @
                      (if length (occurrences (doc v)) > 0 then [IndexDocuments [doc v]] else []),
                    indexer_symbolsCache := symbolsCache (tables v)\<rparr>))
      else indexSourceFiles fuel orc env rest ix)"

definition Indexer_index :: "nat \<Rightarrow> tsOracle \<Rightarrow> typedEnv \<Rightarrow> syntaxTree list \<Rightarrow> typedIndexer \<times> unit result" where
  "Indexer_index fuel orc env sourceFiles =
     indexSourceFiles fuel orc env sourceFiles
       \<lparr>written = [IndexMetadata (env_project env)], indexer_symbolsCache = Map.empty\<rparr>"

text \<open>The symbols of a list of declarations, resolved in order.\<close>

fun lsifSymbols ::
  "nat \<Rightarrow> tsOracle \<Rightarrow> typedEnv \<Rightarrow> tsNode list \<Rightarrow> symbolTables \<Rightarrow> (LsifSymbol list \<times> symbolTables) result" where
  "lsifSymbols fuel orc env [] t = Some (Inr ([], t))"
| "lsifSymbols fuel orc env (declaration # rest) t =
     (case lsifSymbol fuel orc env declaration t of
        None \<Rightarrow> None
      | Some (Inl e) \<Rightarrow> Some (Inl e)
      | Some (Inr (symbol, t1)) \<Rightarrow>
          (case lsifSymbols fuel orc env rest t1 of
             None \<Rightarrow> None
           | Some (Inl e) \<Rightarrow> Some (Inl e)
           | Some (Inr (symbols, t2)) \<Rightarrow> Some (Inr (symbol # symbols, t2))))"

text \<open>
  A node reaches a root within a budget when the chain \<open>lsifSymbol\<close> follows from it
  (the source file of a property assignment, the parent otherwise, and the first
  declaration of the type of an import specifier, whose type has a symbol) ends in a
  block or a source file within that many steps.
\<close>

fun reachesRoot :: "nat \<Rightarrow> tsOracle \<Rightarrow> tsNode \<Rightarrow> bool" where
  "reachesRoot fuel orc node =
     (kind (ast orc) node = Block \<or> kind (ast orc) node = SourceFile
      \<or> (case fuel of
            0 \<Rightarrow> False
          | Suc fuel' \<Rightarrow>
              if kind (ast orc) node = PropertyAssignment
                 \<or> kind (ast orc) node = ShorthandPropertyAssignment
              then reachesRoot fuel' orc (getSourceFile (ast orc) node)
              else reachesRoot fuel' orc (parent (ast orc) node)
                   \<and> (if kind (ast orc) node = ImportSpecifier
                       then (case typeDeclarations orc node of
                               Throws \<Rightarrow> False
                             | Returns [] \<Rightarrow> True
                             | Returns (declaration # _) \<Rightarrow> reachesRoot fuel' orc declaration)
                       else True)))"

declare reachesRoot.simps [simp del]

text \<open>
  The local symbols of a visitor: each cached one is a counter value below the counter,
  and no two nodes share one.
\<close>

definition localsInv :: "symbolTables \<Rightarrow> bool" where
  "localsInv t =
     ((\<forall>n s. localSymbolCache t n = Some s \<longrightarrow> (\<exists>k<localCounter t. s = LS_local k))
      \<and> (\<forall>n m s. localSymbolCache t n = Some s \<and> localSymbolCache t m = Some s \<longrightarrow> n = m))"

text \<open>A local symbol in the shared cache of a visitor is a counter value below its counter.\<close>

definition sharedInv :: "symbolTables \<Rightarrow> bool" where
  "sharedInv t = (\<forall>n k. symbolsCache t n = Some (LS_local k) \<longrightarrow> k < localCounter t)"


section \<open>Example programs\<close>

text \<open>An oracle that knows nothing: every query gives the empty answer.\<close>

definition emptyAst :: tsAst where
  "emptyAst = \<lparr> kind = (\<lambda>_. OtherKind 0), parent = (\<lambda>_. 0), getSourceFile = (\<lambda>_. 0),
     fileName = (\<lambda>_. []), isDeclarationFile = (\<lambda>_. False), node_getText = (\<lambda>_. []),
     name = (\<lambda>n. n), optionalName = (\<lambda>_. None), getStart = (\<lambda>_ _ _. 0), getEnd = (\<lambda>_. 0),
     getLineAndCharacterOfPosition = (\<lambda>_ p. \<lparr>line = 0, character = p\<rparr>),
     expression = (\<lambda>n. n), exportClause = (\<lambda>_. None), elements = (\<lambda>_. []),
     propertyName = (\<lambda>_. None), moduleSpecifier = (\<lambda>_. None) \<rparr>"

definition emptyChecker :: tsChecker where
  "emptyChecker = \<lparr> getSymbolAtLocation = (\<lambda>_. None), getAliasedSymbol = (\<lambda>s. s),
     getFlags = (\<lambda>_. 0), getName = (\<lambda>_. []), getEscapedName = (\<lambda>_. []),
     declarations = (\<lambda>_. None), typeSymbolAtLocation = (\<lambda>_. None),
     getQuickInfoAtPosition = (\<lambda>_ _. Returns None),
     isSourceFileFromExternalLibrary = (\<lambda>_. False) \<rparr>"

definition emptyTss :: tssHelpers where
  "emptyTss = \<lparr> createSymbolKey = (\<lambda>_. []), getSymbolFromNode = (\<lambda>_. None),
     tss_isSourceFile = (\<lambda>_. False), tss_isTransient = (\<lambda>_. False),
     tss_isTypeAlias = (\<lambda>_. False), tss_isAliasSymbol = (\<lambda>_. False),
     tss_isMethodSymbol = (\<lambda>_. False), tss_isValueModule = (\<lambda>_. False),
     tss_isComposite = (\<lambda>_ _. False), tss_getCompositeSymbols = (\<lambda>_ _. None),
     tss_getSymbolParent = (\<lambda>_. None), tss_isNamedDeclaration = (\<lambda>_. False),
     tss_getUniqueSourceFiles = (\<lambda>_. []), tss_computeMonikerPath = (\<lambda>_ p. p),
     tss_toOutLocation = (\<lambda>p _ _. p), tss_createMonikerIdentifier = (\<lambda>_ _. []),
     findBaseMembers = (\<lambda>_ _. None), getLocationKind = (\<lambda>_. 0),
     getExportPath = (\<lambda>_ _. None) \<rparr>"

definition emptyOracle :: tsOracle where
  "emptyOracle = \<lparr> ast = emptyAst, checker = emptyChecker, tss = emptyTss,
     paths = \<lparr> projectRoot = ''/p'', rootDir = ''/p/src'', outDir = ''/p/out'',
       repositoryRoot = ''/p'' \<rparr> \<rparr>"

text \<open>
  Three source files (nodes 1 to 3), an identifier (node 10) in the first one, an export
  assignment (node 20) and an export declaration (node 21). A source file's moniker path
  is its file name here.
\<close>

definition exampleAst :: tsAst where
  "exampleAst = emptyAst\<lparr> fileName := (\<lambda>n. if n = 1 then ''/p/src/a.ts'' else if n = 2 then ''/p/src/b.ts'' else ''/p/src/c.ts''),
      kind := (\<lambda>n. if n \<le> 3 then SourceFile else if n < 10 then OtherKind 0
                    else if n = 20 then ExportAssignment else if n = 21 then ExportDeclaration
                    else Identifier),
      getSourceFile := (\<lambda>n. if n < 10 then n else 1) \<rparr>"

text \<open>
  A plain symbol (symbol 3, named at node 10) and two methods of the same name (symbols 1
  and 2, the first named at node 11) in two interfaces that extend each other: each
  method is the base member of the other. Every symbol has a key of its own.
\<close>

definition exampleOracle :: tsOracle where
  "exampleOracle = emptyOracle\<lparr> ast := exampleAst,
      tss := emptyTss\<lparr> createSymbolKey := (\<lambda>s. ''key'' @ replicate s (CHR ''+'')),
        tss_isMethodSymbol := (\<lambda>s. s = 1 \<or> s = 2),
        tss_getSymbolParent := (\<lambda>s. if s = 1 then Some 11 else if s = 2 then Some 12 else None),
        findBaseMembers := (\<lambda>c n. if c = 11 then Some [2] else if c = 12 then Some [1] else None) \<rparr>,
      checker := emptyChecker\<lparr>
        getSymbolAtLocation := (\<lambda>n. if n = 10 then Some 3 else if n = 11 then Some 1 else None) \<rparr> \<rparr>"

text \<open>
  A transient symbol (symbol 4, named at node 31) that is a composite at its use site
  and is itself its only member. A node starts at the position of its number.
\<close>

definition compositeOracle :: tsOracle where
  "compositeOracle = exampleOracle\<lparr>
      tss := (tss exampleOracle)\<lparr>
        tss_isTransient := (\<lambda>s. s = 4),
        tss_isComposite := (\<lambda>s n. s = 4 \<and> n \<noteq> None),
        tss_getCompositeSymbols := (\<lambda>s n. if s = 4 \<and> n \<noteq> None then Some [4] else None) \<rparr>,
      checker := (checker exampleOracle)\<lparr>
        getSymbolAtLocation := (\<lambda>n. if n = 31 then Some 4 else None),
        getFlags := (\<lambda>s. if s = 4 then SymbolFlags_Transient else 0) \<rparr>,
      ast := (ast exampleOracle)\<lparr> getStart := (\<lambda>n _ _. n), getEnd := (\<lambda>n. Suc n) \<rparr> \<rparr>"

text \<open>Class methods that report one declaration (node 30, named at node 31) in the first file.\<close>

definition declaredMethods :: symbolMethods where
  "declaredMethods = \<lparr> sd_getSourceFiles = (\<lambda>_ _ _. [1]), sd_getDeclarations = (\<lambda>_ _ _. [30]),
     sd_getText = (\<lambda>_ _ _. Some (''x'', 31)) \<rparr>"

text \<open>The rank of the symbols of \<open>exampleOracle\<close> without the two methods: nothing is related.\<close>

definition plainOracle :: tsOracle where
  "plainOracle = exampleOracle\<lparr> tss := (tss exampleOracle)\<lparr> tss_isMethodSymbol := (\<lambda>s. False) \<rparr> \<rparr>"

text \<open>Class methods that report no source file and no declaration.\<close>

definition exampleMethods :: symbolMethods where
  "exampleMethods = \<lparr> sd_getSourceFiles = (\<lambda>_ _ _. []), sd_getDeclarations = (\<lambda>_ _ _. []), sd_getText = (\<lambda>_ _ _. None) \<rparr>"

text \<open>The state inside the first source file, before any symbol was seen.\<close>

definition exampleState :: indexer where
  "exampleState = \<lparr> documentDatas = [''/p/src/a.ts'' \<mapsto> 0], symbolDatas = Map.empty,
      currentSourceFile = Some 1, currentDocumentData = Some 0,
      documentHeap = [\<lparr>dd_document = \<lparr>dv_id = 0, dv_uri = ''/p/src/a.ts''\<rparr>, dd_externalLibrary = False,
         dd_monikerPath = Some ''/p/src/a.ts'', dd_begun = True, dd_ranges = []\<rparr>],
      symbolHeap = [], emitted = [EmitDocument \<lparr>dv_id = 0, dv_uri = ''/p/src/a.ts''\<rparr>], nextId = 1 \<rparr>"

text \<open>The same state once the key is cached, with the definition at node 10 recorded.\<close>

definition cachedState :: indexer where
  "cachedState = exampleState\<lparr> symbolDatas := [''key+++'' \<mapsto> 0],
     symbolHeap := [\<lparr>sd_class = StandardSymbolData, sd_document = \<lparr>dv_id = 0, dv_uri = ''/p/src/a.ts''\<rparr>,
        sd_begun = True, sd_monikers = [], sd_definitions = [], sd_references = [],
        sd_definitionInfos = [createDefinitionInfo exampleOracle 1 10], sd_hovers = []\<rparr>] \<rparr>"

text \<open>A state outside of every source file.\<close>

definition noContextState :: indexer where
  "noContextState = exampleState\<lparr> currentSourceFile := None, currentDocumentData := None \<rparr>"

text \<open>
  The document data the loop of \<open>getOrCreateSymbolData\<close> reads for a list of source
  files: what \<open>getOrCreateDocumentData\<close> returns for each, in order.
\<close>

fun documentDataOf :: "tsOracle \<Rightarrow> tsNode list \<Rightarrow> indexer \<Rightarrow> documentData list" where
  "documentDataOf orc [] st = []"
| "documentDataOf orc (sourceFile # rest) st =
     (let (documentData, st1) = getOrCreateDocumentData orc sourceFile st
      in documentHeap st1 ! documentData # documentDataOf orc rest st1)"

text \<open>
  A source file of the descriptor indexer, with node numbers from \<open>b\<close>: a function
  \<open>f\<close> (nodes 2 and 3) whose body (the block 4) declares a variable \<open>x\<close> (statement 5,
  list 6, declaration 7, name 8), and a top-level variable \<open>y\<close> (statement 9, list 10,
  declaration 11, name 12). Files are numbered in hundreds.

  A second kind of file imports two names, \<open>import { f, n } from './m'\<close>: the import
  declaration 21, its clause 22, the named imports 23, the specifier of \<open>f\<close> (24, name
  25) and the specifier of \<open>n\<close> (26, name 27). The type of \<open>f\<close> is the function declared
  at node 2; \<open>n\<close> is a number, and the type \<open>number\<close> has no symbol.
\<close>

definition functionFile :: "nat \<Rightarrow> syntaxTree" where
  "functionFile b =
     SyntaxTree (b + 1)
       [SyntaxTree (b + 2)
          [SyntaxTree (b + 3) [],
           SyntaxTree (b + 4)
             [SyntaxTree (b + 5) [SyntaxTree (b + 6) [SyntaxTree (b + 7) [SyntaxTree (b + 8) []]]]]],
        SyntaxTree (b + 9) [SyntaxTree (b + 10) [SyntaxTree (b + 11) [SyntaxTree (b + 12) []]]]]"

definition importFile :: "nat \<Rightarrow> syntaxTree" where
  "importFile b =
     SyntaxTree (b + 1)
       [SyntaxTree (b + 21)
          [SyntaxTree (b + 22)
             [SyntaxTree (b + 23)
                [SyntaxTree (b + 24) [SyntaxTree (b + 25) []],
                 SyntaxTree (b + 26) [SyntaxTree (b + 27) []]]]]]"

definition typedAst :: tsAst where
  "typedAst = emptyAst\<lparr>
     kind := (\<lambda>n. let k = n mod 100 in
                if k = 0 then Block else if k = 1 then SourceFile
                else if k = 2 then FunctionDeclaration else if k = 3 then Identifier
                else if k = 4 then Block else if k = 5 then VariableStatement
                else if k = 6 then VariableDeclarationList else if k = 7 then VariableDeclaration
                else if k = 8 then Identifier else if k = 9 then VariableStatement
                else if k = 10 then VariableDeclarationList else if k = 11 then VariableDeclaration
                else if k = 12 then Identifier
                else if k = 21 then ImportDeclaration else if k = 22 then ImportClause
                else if k = 23 then NamedImports else if k = 24 then ImportSpecifier
                else if k = 25 then Identifier else if k = 26 then ImportSpecifier
                else if k = 27 then Identifier else OtherKind 0),
     parent := (\<lambda>n. if n mod 100 = 4 then n - 2 else if n mod 100 = 9 then n - 8
                     else if n mod 100 = 21 then n - 20 else if n mod 100 = 26 then n - 3
                     else n - 1),
     getSourceFile := (\<lambda>n. n - n mod 100 + 1),
     fileName := (\<lambda>n. if n < 100 then ''/p/a.ts'' else if n < 200 then ''/p/b.ts'' else ''/p/lib.d.ts''),
     name := (\<lambda>n. Suc n), optionalName := (\<lambda>n. Some (Suc n)),
     node_getText := (\<lambda>n. if n mod 100 = 3 then ''f'' else if n mod 100 = 12 then ''y'' else ''x'') \<rparr>"

definition typedOracle :: tsOracle where
  "typedOracle = emptyOracle\<lparr> ast := typedAst,
     checker := emptyChecker\<lparr>
       getSymbolAtLocation :=
         (\<lambda>n. if n mod 100 = 3 \<or> n mod 100 = 8 \<or> n mod 100 = 12
                   \<or> n mod 100 = 25 \<or> n mod 100 = 27 then Some n else None),
       declarations :=
         (\<lambda>s. if s mod 100 = 3 \<or> s mod 100 = 8 \<or> s mod 100 = 12
                   \<or> s mod 100 = 25 \<or> s mod 100 = 27 then Some [s - 1] else None),
       typeSymbolAtLocation := (\<lambda>n. if n mod 100 = 24 then Some (n - 21) else None) \<rparr> \<rparr>"

definition freshTables :: symbolTables where
  "freshTables = \<lparr>localCounter = 0, propertyCounters = Map.empty,
                   localSymbolCache = Map.empty, symbolsCache = Map.empty\<rparr>"

definition exampleEnv :: typedEnv where
  "exampleEnv = \<lparr> env_fileNames = [''/p/a.ts'', ''/p/b.ts''], env_project = ''/p'',
     packages_symbol = (\<lambda>f. Some (''pkg'', ''1.0.0'')),
     path_relative = (\<lambda>root f. drop (Suc (length root)) f),
     range_toLsif = (\<lambda>n. [n, 0, 1]) \<rparr>"


text \<open>A visitor of the first file that has seen nothing yet.\<close>

definition freshVisitor :: visitor where
  "freshVisitor = newVisitor Map.empty (newDocument typedOracle exampleEnv 1)"

text \<open>The document the descriptor indexer writes for the first file.\<close>

definition exampleDocument :: document where
  "exampleDocument =
     \<lparr>relative_path = ''a.ts'',
      occurrences =
        [\<lparr>occ_range = [3, 0, 1],
          occ_symbol = LS_global (LS_package ''pkg'' ''1.0.0'') (D_method ''f'' []),
          occ_symbol_roles = 1\<rparr>,
         \<lparr>occ_range = [8, 0, 1], occ_symbol = LS_local 2, occ_symbol_roles = 1\<rparr>,
         \<lparr>occ_range = [12, 0, 1],
          occ_symbol = LS_global (LS_package ''pkg'' ''1.0.0'') (D_term ''y''),
          occ_symbol_roles = 1\<rparr>]\<rparr>"

section \<open>Declarations and source files per resolver type\<close>



section \<open>The symbol cache\<close>

declare getOrCreateSymbolData.simps [simp del] makeSymbolData.simps [simp del]

lemma andThen_simps [simp]:
  "andThen None f = None" "andThen (Some (Inl e)) f = Some (Inl e)" "andThen (Some (Inr x)) f = f x"
  by (simp_all add: andThen_def)

text \<open>
  C1. A call of \<open>getOrCreateSymbolData\<close> for a symbol whose key is in \<open>symbolDatas\<close>
  returns the node stored there and leaves the whole state as it was: no node is added to
  the heap, nothing is emitted, no definition and no moniker is attached. This holds in
  both variants of the indexer, for every recursion budget.
\<close>

theorem symbol_cache_hit:
  assumes "currentDocumentData st = Some c"
    and "symbolDatas st (createSymbolKey (tss orc) symbol) = Some d"
  shows "getOrCreateSymbolData fuel orc ms symbol node st = Some (Inr (d, st))
       \<and> getOrCreateSymbolData_v2 orc exportLinker symbol node' rt st = Inr (d, st)"
  using assms by (simp add: getOrCreateSymbolData_v2_def getOrCreateSymbolData.simps)

theorem symbol_cache_hit_witness:
  "currentDocumentData cachedState = Some 0
   \<and> symbolDatas cachedState (createSymbolKey (tss exampleOracle) 3) = Some 0
   \<and> getOrCreateSymbolData 0 exampleOracle exampleMethods 3 (Some 10) cachedState = Some (Inr (0, cachedState))
   \<and> getOrCreateSymbolData_v2 exampleOracle True 3 10 Standard cachedState = Inr (0, cachedState)"
proof -
  have c: "currentDocumentData cachedState = Some 0"
    by (simp add: cachedState_def exampleState_def)
  have k: "symbolDatas cachedState (createSymbolKey (tss exampleOracle) 3) = Some 0"
    by (simp add: cachedState_def exampleOracle_def emptyOracle_def emptyTss_def numeral_3_eq_3)
  show ?thesis
    using symbol_cache_hit [OF c k, of 0 exampleMethods "Some 10" True 10 Standard] c k by simp
qed


text \<open>With any budget: the call for either method never returns.\<close>

lemma override_cycle_never_returns:
  "getOrCreateSymbolData fuel exampleOracle exampleMethods 1 node exampleState = None
   \<and> getOrCreateSymbolData fuel exampleOracle exampleMethods 2 node exampleState = None"
proof (induction fuel arbitrary: node)
  case 0
  show ?case
    by (simp add: getOrCreateSymbolData.simps exampleState_def exampleOracle_def emptyOracle_def
          emptyTss_def)
next
  case (Suc fuel)
  have m: "makeSymbolData fuel exampleOracle exampleMethods 1 node exampleState = None"
    "makeSymbolData fuel exampleOracle exampleMethods 2 node exampleState = None"
    using Suc [of None]
    by (simp_all add: makeSymbolData.simps exampleState_def exampleOracle_def emptyOracle_def
          emptyTss_def emptyChecker_def)
  show ?case
    using m
    by (simp add: getOrCreateSymbolData.simps [of "Suc fuel"] exampleState_def exampleOracle_def
          emptyOracle_def emptyTss_def)
qed






section \<open>The moniker path of a symbol\<close>

lemma sourceFilesLoop_fold:
  "fst (sourceFilesLoop orc sfs acc st) = foldl monikerPathStep acc (documentDataOf orc sfs st)"
  by (induction sfs arbitrary: acc st) (simp_all add: split_def Let_def)

lemma ofMonikerPath_simps [simp]:
  "ofMonikerPath p \<noteq> MP_null"
  "(ofMonikerPath p = MP_undefined) = (p = None)"
  "(ofMonikerPath p = MP_string c) = (p = Some c)"
  "(MP_string c = ofMonikerPath p) = (p = Some c)"
  by (auto simp: ofMonikerPath_def split: option.splits)

lemma monikerPathStep_simps:
  "monikerPathStep (MP_null, e) d = (MP_null, e)"
  "monikerPathStep (MP_string c, e) d =
     (if dd_monikerPath d = Some c then (MP_string c, e) else (MP_null, e))"
  "monikerPathStep (MP_undefined, e) d = (ofMonikerPath (dd_monikerPath d), dd_externalLibrary d)"
  by (auto simp: monikerPathStep_def)

lemma fold_null: "foldl monikerPathStep (MP_null, e) ds = (MP_null, e)"
  by (induction ds) (simp_all add: monikerPathStep_simps)

lemma fold_string:
  "foldl monikerPathStep (MP_string c, e) ds =
     (if \<forall>d\<in>set ds. dd_monikerPath d = Some c then (MP_string c, e) else (MP_null, e))"
  by (induction ds) (auto simp: monikerPathStep_simps fold_null)

lemma fold_undefined:
  "foldl monikerPathStep (MP_undefined, e) ds =
     (case dropWhile (\<lambda>d. dd_monikerPath d = None) ds of
        [] \<Rightarrow> (MP_undefined, if ds = [] then e else dd_externalLibrary (last ds))
      | d # later \<Rightarrow>
          if \<forall>d'\<in>set later. dd_monikerPath d' = dd_monikerPath d
          then (ofMonikerPath (dd_monikerPath d), dd_externalLibrary d)
          else (MP_null, dd_externalLibrary d))"
proof (induction ds arbitrary: e)
  case Nil
  then show ?case by simp
next
  case (Cons d ds)
  show ?case
  proof (cases "dd_monikerPath d")
    case None
    have "foldl monikerPathStep (MP_undefined, e) (d # ds)
          = foldl monikerPathStep (MP_undefined, dd_externalLibrary d) ds"
      using None by (simp add: monikerPathStep_simps ofMonikerPath_def)
    also have "\<dots> = (case dropWhile (\<lambda>d. dd_monikerPath d = None) ds of
        [] \<Rightarrow> (MP_undefined, if ds = [] then dd_externalLibrary d else dd_externalLibrary (last ds))
      | d # later \<Rightarrow>
          if \<forall>d'\<in>set later. dd_monikerPath d' = dd_monikerPath d
          then (ofMonikerPath (dd_monikerPath d), dd_externalLibrary d)
          else (MP_null, dd_externalLibrary d))"
      by (rule Cons.IH)
    also have "\<dots> = (case dropWhile (\<lambda>d. dd_monikerPath d = None) (d # ds) of
        [] \<Rightarrow> (MP_undefined, if d # ds = [] then e else dd_externalLibrary (last (d # ds)))
      | d # later \<Rightarrow>
          if \<forall>d'\<in>set later. dd_monikerPath d' = dd_monikerPath d
          then (ofMonikerPath (dd_monikerPath d), dd_externalLibrary d)
          else (MP_null, dd_externalLibrary d))"
    proof (cases "dropWhile (\<lambda>d. dd_monikerPath d = None) ds")
      case Nil
      then show ?thesis using None by (simp del: dropWhile_eq_Nil_conv)
    next
      case (Cons x xs)
      then show ?thesis using None by simp
    qed
    finally show ?thesis .
  next
    case (Some c)
    have "foldl monikerPathStep (MP_undefined, e) (d # ds)
          = foldl monikerPathStep (MP_string c, dd_externalLibrary d) ds"
      using Some by (simp add: monikerPathStep_simps ofMonikerPath_def)
    then show ?thesis using Some by (simp add: fold_string)
  qed
qed

lemma in_dropWhile: "x \<in> set xs \<Longrightarrow> \<not> P x \<Longrightarrow> x \<in> set (dropWhile P xs)"
  by (induction xs) auto

lemma resolveMonikerPath_fold:
  "fst (resolveMonikerPath orc sfs st) =
     (case foldl monikerPathStep (MP_undefined, False) (documentDataOf orc sfs st) of
        (MP_null, e) \<Rightarrow> (None, False)
      | (MP_undefined, e) \<Rightarrow> (None, e)
      | (MP_string s, e) \<Rightarrow> (Some s, e))"
  using sourceFilesLoop_fold [of orc sfs "(MP_undefined, False)" st]
  by (auto simp: resolveMonikerPath_def split_def split: monikerPathVar.splits)

text \<open>
  C3. When two source files of a symbol yield moniker paths that are defined and differ,
  the symbol gets no moniker path and its external-library flag is \<open>false\<close>. The
  candidate is the path of the first file, in enumeration order, that yields a defined
  path: it is kept, with that file's flag, when every later file yields the same path,
  and voided by any later file that does not.
\<close>

theorem conflicting_moniker_paths_void:
  assumes "docs = documentDataOf orc sourceFiles st"
  shows "((\<exists>d1\<in>set docs. \<exists>d2\<in>set docs. \<exists>a b.
            dd_monikerPath d1 = Some a \<and> dd_monikerPath d2 = Some b \<and> a \<noteq> b)
          \<longrightarrow> fst (resolveMonikerPath orc sourceFiles st) = (None, False))
       \<and> (dropWhile (\<lambda>d. dd_monikerPath d = None) docs = first # later
          \<longrightarrow> fst (resolveMonikerPath orc sourceFiles st) =
              (if \<forall>d\<in>set later. dd_monikerPath d = dd_monikerPath first
               then (dd_monikerPath first, dd_externalLibrary first)
               else (None, False)))"
proof (intro conjI impI)
  assume "\<exists>d1\<in>set docs. \<exists>d2\<in>set docs. \<exists>a b.
            dd_monikerPath d1 = Some a \<and> dd_monikerPath d2 = Some b \<and> a \<noteq> b"
  then obtain d1 d2 a b where d: "d1 \<in> set docs" "d2 \<in> set docs"
    "dd_monikerPath d1 = Some a" "dd_monikerPath d2 = Some b" "a \<noteq> b" by blast
  let ?rest = "dropWhile (\<lambda>d. dd_monikerPath d = None) docs"
  have in1: "d1 \<in> set ?rest" and in2: "d2 \<in> set ?rest"
    using d by (auto intro: in_dropWhile)
  then obtain f l where fl: "?rest = f # l" by (cases ?rest) auto
  have "d1 = f \<or> d1 \<in> set l" "d2 = f \<or> d2 \<in> set l"
    using in1 in2 fl by auto
  then have "\<not> (\<forall>d'\<in>set l. dd_monikerPath d' = dd_monikerPath f)"
    using d(3-5) by (metis option.inject)
  then have "foldl monikerPathStep (MP_undefined, False) docs = (MP_null, dd_externalLibrary f)"
    using fl by (simp add: fold_undefined)
  then show "fst (resolveMonikerPath orc sourceFiles st) = (None, False)"
    using assms by (simp add: resolveMonikerPath_fold)
next
  assume fl: "dropWhile (\<lambda>d. dd_monikerPath d = None) docs = first # later"
  have "dd_monikerPath first \<noteq> None"
    using hd_dropWhile [of "\<lambda>d. dd_monikerPath d = None" docs] fl by auto
  then obtain c where c: "dd_monikerPath first = Some c" by auto
  then show "fst (resolveMonikerPath orc sourceFiles st) =
              (if \<forall>d\<in>set later. dd_monikerPath d = dd_monikerPath first
               then (dd_monikerPath first, dd_externalLibrary first)
               else (None, False))"
    using fl assms by (simp add: resolveMonikerPath_fold fold_undefined ofMonikerPath_def)
qed

lemma example_documents:
  "map dd_monikerPath (documentDataOf exampleOracle [1, 2] exampleState)
     = [Some ''/p/src/a.ts'', Some ''/p/src/b.ts'']"
  by code_simp

theorem conflicting_moniker_paths_void_witness:
  "map dd_monikerPath (documentDataOf exampleOracle [1, 2] exampleState)
     = [Some ''/p/src/a.ts'', Some ''/p/src/b.ts'']
   \<and> fst (resolveMonikerPath exampleOracle [1, 2] exampleState) = (None, False)"
proof -
  let ?docs = "documentDataOf exampleOracle [1, 2] exampleState"
  obtain d1 d2 where ds: "?docs = [d1, d2]" "dd_monikerPath d1 = Some ''/p/src/a.ts''"
    "dd_monikerPath d2 = Some ''/p/src/b.ts''"
    using example_documents by (auto simp: map_eq_Cons_conv)
  have "\<exists>d1\<in>set ?docs. \<exists>d2\<in>set ?docs. \<exists>a b.
          dd_monikerPath d1 = Some a \<and> dd_monikerPath d2 = Some b \<and> a \<noteq> b"
    using ds by auto
  then show ?thesis
    using conflicting_moniker_paths_void [OF refl, of exampleOracle "[1, 2]" exampleState]
      example_documents by blast
qed

section \<open>Duplicate definitions\<close>

text \<open>
  C4. When the node returned for the symbol of a visited node already records the
  definition info of that node (its file and range), \<open>visitSymbol\<close> stops there: the state
  is the one \<open>getOrCreateSymbolData\<close> left, so no reference range is emitted and nothing
  is appended to the document. The check is membership of the info, by equality of file
  and range, among the infos recorded on the node.
\<close>

theorem duplicate_definition_suppressed:
  assumes "currentSourceFile st = Some sourceFile" and "currentDocumentData st = Some c"
    and "getSymbolAtLocation (checker orc) node = Some symbol"
    and "getOrCreateSymbolData fuel orc ms symbol (Some node) st = Some (Inr (d, st1))"
    and "hasDefinitionInfo (symbolHeap st1 ! d) (createDefinitionInfo orc sourceFile node)"
  shows "visitSymbol fuel orc ms node st = Some (Inr st1)
       \<and> hasDefinitionInfo x info
           = (\<exists>i\<in>set (sd_definitionInfos x). di_file i = di_file info \<and> di_range i = di_range info)"
proof
  show "visitSymbol fuel orc ms node st = Some (Inr st1)"
    using assms by (simp add: visitSymbol_def)
  have "\<And>i. (di_file i = di_file info \<and> di_range i = di_range info) = (i = info)"
    by auto
  then show "hasDefinitionInfo x info
           = (\<exists>i\<in>set (sd_definitionInfos x). di_file i = di_file info \<and> di_range i = di_range info)"
    by (simp add: hasDefinitionInfo_def)
qed

theorem duplicate_definition_suppressed_witness:
  "currentSourceFile cachedState = Some 1 \<and> currentDocumentData cachedState = Some 0
   \<and> getSymbolAtLocation (checker exampleOracle) 10 = Some 3
   \<and> getOrCreateSymbolData 0 exampleOracle exampleMethods 3 (Some 10) cachedState
       = Some (Inr (0, cachedState))
   \<and> hasDefinitionInfo (symbolHeap cachedState ! 0) (createDefinitionInfo exampleOracle 1 10)
   \<and> visitSymbol 0 exampleOracle exampleMethods 10 cachedState = Some (Inr cachedState)"
proof -
  have a: "currentSourceFile cachedState = Some 1" "currentDocumentData cachedState = Some 0"
    by (simp_all add: cachedState_def exampleState_def)
  have b: "getSymbolAtLocation (checker exampleOracle) 10 = Some 3"
    by (simp add: exampleOracle_def emptyChecker_def)
  have c: "getOrCreateSymbolData 0 exampleOracle exampleMethods 3 (Some 10) cachedState
       = Some (Inr (0, cachedState))"
    using a
    by (simp add: getOrCreateSymbolData.simps cachedState_def exampleOracle_def emptyOracle_def
          emptyTss_def numeral_3_eq_3)
  have d: "hasDefinitionInfo (symbolHeap cachedState ! 0) (createDefinitionInfo exampleOracle 1 10)"
    by (simp add: hasDefinitionInfo_def cachedState_def)
  show ?thesis
    using duplicate_definition_suppressed [OF a b c d] a b c d by simp
qed

section \<open>Illegal contexts\<close>

text \<open>
  Without a current document \<open>visitSymbol\<close> returns at once, and a visit that returns
  leaves the indexer without a current document: \<open>postVisit\<close> of a source file resets it,
  and no other node sets it.
\<close>

lemma visitSymbol_no_document:
  "currentDocumentData st = None \<Longrightarrow> visitSymbol fuel orc ms node st = Some (Inr st)"
  by (simp add: visitSymbol_def split: option.splits)

lemma preVisit_no_document:
  "currentDocumentData st = None \<Longrightarrow> kind (ast orc) node \<noteq> SourceFile
   \<Longrightarrow> preVisit fuel orc ms node st
       = Some (Inr (\<not> (kind (ast orc) node = ExportAssignment \<or> kind (ast orc) node = Identifier
                        \<or> kind (ast orc) node = StringLiteral), st))"
  by (simp add: preVisit_def visitSymbol_no_document)

lemma postVisit_no_document:
  "currentDocumentData st = None \<Longrightarrow> postVisit fuel orc ms node st = Some (Inr st')
   \<Longrightarrow> currentDocumentData st' = None"
  by (auto simp: postVisit_def split: syntaxKind.splits)

lemma postVisit_sourceFile:
  "kind (ast orc) node = SourceFile \<Longrightarrow> postVisit fuel orc ms node st = Some (Inr st')
   \<Longrightarrow> currentDocumentData st' = None"
  by (auto simp: postVisit_def)

lemma visit_no_document:
  shows "visit fuel orc ms tree st = Some (Inr st') \<Longrightarrow> currentDocumentData st = None
         \<Longrightarrow> currentDocumentData st' = None"
    and "visitChildren fuel orc ms trees st = Some (Inr st') \<Longrightarrow> currentDocumentData st = None
         \<Longrightarrow> currentDocumentData st' = None"
proof (induction fuel orc ms tree st and fuel orc ms trees st arbitrary: st' and st'
       rule: visit_visitChildren.induct)
  case (1 fuel orc ms node children st)
  show ?case
  proof (cases "kind (ast orc) node = SourceFile")
    case True
    then obtain st2 where "postVisit fuel orc ms node st2 = Some (Inr st')"
      using 1(2) by (auto simp: preVisit_def split_def Let_def split: option.splits sum.splits)
    then show ?thesis using True postVisit_sourceFile by blast
  next
    case False
    note pre = preVisit_no_document [OF 1(3) False, of fuel ms]
    show ?thesis
    proof (cases "kind (ast orc) node = ExportAssignment \<or> kind (ast orc) node = Identifier
                  \<or> kind (ast orc) node = StringLiteral")
      case True
      then have "st' = st" using 1(2) pre by simp
      then show ?thesis using 1(3) by simp
    next
      case descend: False
      then obtain st2 where c: "visitChildren fuel orc ms children st = Some (Inr st2)"
        and p: "postVisit fuel orc ms node st2 = Some (Inr st')"
        using 1(2) pre by (auto split: option.splits sum.splits)
      have pre': "preVisit fuel orc ms node st = Some (Inr (True, st))"
        using pre descend by simp
      have "currentDocumentData st2 = None"
        using 1(1) [OF pre' refl refl TrueI c 1(3)] .
      then show ?thesis using p postVisit_no_document by blast
    qed
  qed
next
  case (2 fuel orc ms st)
  then show ?case by simp
next
  case (3 fuel orc ms child rest st)
  obtain st1 where a: "visit fuel orc ms child st = Some (Inr st1)"
    and b: "visitChildren fuel orc ms rest st1 = Some (Inr st')"
    using 3(3) by (auto split: option.splits sum.splits)
  have "currentDocumentData st1 = None" using 3(1) [OF a 3(4)] .
  then show ?case using 3(2) [OF a refl b] by simp
qed

text \<open>
  C7, as stated: visiting an export assignment without a current document raises an
  error. It does not: \<open>preVisit\<close> hands an export assignment to \<open>visitSymbol\<close>, which
  returns at once without a document, and answers that the node is done, so \<open>postVisit\<close>
  and its test are not reached. The visit returns with the state unchanged.
\<close>

theorem export_assignment_visit_silent_counterexample:
  "kind (ast exampleOracle) 20 = ExportAssignment
   \<and> currentDocumentData noContextState = None
   \<and> visit 3 exampleOracle exampleMethods (SyntaxTree 20 []) noContextState
       = Some (Inr noContextState)"
  by (simp add: preVisit_def visitSymbol_def noContextState_def exampleOracle_def
        exampleAst_def emptyAst_def emptyOracle_def)

text \<open>
  C7, amended. Without a current document, \<open>getOrCreateSymbolData\<close> throws
  \<open>Illegal symbol context\<close> and \<open>postVisit\<close> of an export assignment or of an export
  declaration throws \<open>Illegal statement context\<close>, whatever the rest of the state, the
  program and the recursion budget are. The visit of an export declaration never returns
  normally: once its children are visited, it throws \<open>Illegal statement context\<close>.
\<close>

theorem illegal_context_is_fatal:
  assumes "currentDocumentData st = None"
  shows "getOrCreateSymbolData fuel orc ms symbol node st = Some (Inl (Error ''Illegal symbol context''))
    \<and> (kind (ast orc) n = ExportAssignment \<or> kind (ast orc) n = ExportDeclaration
        \<longrightarrow> postVisit fuel orc ms n st = Some (Inl (Error ''Illegal statement context'')))
    \<and> (kind (ast orc) n = ExportDeclaration
        \<longrightarrow> (\<forall>st'. visit fuel orc ms (SyntaxTree n children) st \<noteq> Some (Inr st'))
            \<and> (\<forall>st2. visitChildren fuel orc ms children st = Some (Inr st2)
                  \<longrightarrow> visit fuel orc ms (SyntaxTree n children) st
                        = Some (Inl (Error ''Illegal statement context''))))"
proof (intro conjI impI allI)
  show "getOrCreateSymbolData fuel orc ms symbol node st = Some (Inl (Error ''Illegal symbol context''))"
    using assms by (simp add: getOrCreateSymbolData.simps)
next
  assume "kind (ast orc) n = ExportAssignment \<or> kind (ast orc) n = ExportDeclaration"
  then show "postVisit fuel orc ms n st = Some (Inl (Error ''Illegal statement context''))"
    using assms by (auto simp: postVisit_def)
next
  fix st'
  assume k: "kind (ast orc) n = ExportDeclaration"
  have pre: "preVisit fuel orc ms n st = Some (Inr (True, st))"
    using preVisit_no_document [OF assms, of orc n fuel ms] k by simp
  show "visit fuel orc ms (SyntaxTree n children) st \<noteq> Some (Inr st')"
  proof
    assume v: "visit fuel orc ms (SyntaxTree n children) st = Some (Inr st')"
    then obtain st2 where c: "visitChildren fuel orc ms children st = Some (Inr st2)"
      and p: "postVisit fuel orc ms n st2 = Some (Inr st')"
      using pre by (auto split: option.splits sum.splits)
    have "currentDocumentData st2 = None" using visit_no_document(2) [OF c assms] .
    then show False using p k by (simp add: postVisit_def)
  qed
next
  fix st2
  assume k: "kind (ast orc) n = ExportDeclaration"
    and c: "visitChildren fuel orc ms children st = Some (Inr st2)"
  have pre: "preVisit fuel orc ms n st = Some (Inr (True, st))"
    using preVisit_no_document [OF assms, of orc n fuel ms] k by simp
  have "currentDocumentData st2 = None" using visit_no_document(2) [OF c assms] .
  then show "visit fuel orc ms (SyntaxTree n children) st
               = Some (Inl (Error ''Illegal statement context''))"
    using pre c k by (simp add: postVisit_def)
qed

theorem illegal_context_is_fatal_witness:
  "currentDocumentData noContextState = None
   \<and> kind (ast exampleOracle) 20 = ExportAssignment
   \<and> kind (ast exampleOracle) 21 = ExportDeclaration
   \<and> getOrCreateSymbolData 3 exampleOracle exampleMethods 1 (Some 10) noContextState
       = Some (Inl (Error ''Illegal symbol context''))
   \<and> postVisit 3 exampleOracle exampleMethods 20 noContextState
       = Some (Inl (Error ''Illegal statement context''))
   \<and> postVisit 3 exampleOracle exampleMethods 21 noContextState
       = Some (Inl (Error ''Illegal statement context''))
   \<and> visitChildren 3 exampleOracle exampleMethods [SyntaxTree 10 []] noContextState
       = Some (Inr noContextState)
   \<and> visit 3 exampleOracle exampleMethods (SyntaxTree 21 [SyntaxTree 10 []]) noContextState
       = Some (Inl (Error ''Illegal statement context''))"
proof -
  have a: "currentDocumentData noContextState = None"
    by (simp add: noContextState_def)
  have k: "kind (ast exampleOracle) 20 = ExportAssignment"
    "kind (ast exampleOracle) 21 = ExportDeclaration"
    by (simp_all add: exampleOracle_def exampleAst_def emptyAst_def)
  have c: "visitChildren 3 exampleOracle exampleMethods [SyntaxTree 10 []] noContextState
       = Some (Inr noContextState)"
    by (simp add: preVisit_def visitSymbol_def noContextState_def exampleOracle_def
          exampleAst_def emptyAst_def emptyOracle_def)
  show ?thesis
    using illegal_context_is_fatal [OF a, of 3 exampleOracle exampleMethods 1 "Some 10" 20 "[]"]
      illegal_context_is_fatal [OF a, of 3 exampleOracle exampleMethods 1 "Some 10" 21
        "[SyntaxTree 10 []]"] a k c
    by simp
qed

section \<open>Occurrences of an identifier\<close>

lemma lsifSymbols_length:
  "lsifSymbols fuel orc env ds t = Some (Inr (symbols, t')) \<Longrightarrow> length symbols = length ds"
  by (induction ds arbitrary: t symbols) (auto split: option.splits sum.splits)

lemma pushOccurrences_lsifSymbols:
  "pushOccurrences fuel orc env rng role ds v =
     (case lsifSymbols fuel orc env ds (tables v) of
        None \<Rightarrow> None
      | Some (Inl e) \<Rightarrow> Some (Inl e)
      | Some (Inr (symbols, t')) \<Rightarrow>
          Some (Inr (v\<lparr>tables := t',
                  doc := (doc v)\<lparr>occurrences := occurrences (doc v) @
                    map (\<lambda>s. \<lparr>occ_range = rng, occ_symbol = s, occ_symbol_roles = role\<rparr>) symbols\<rparr>\<rparr>)))"
proof (induction ds arbitrary: v)
  case Nil
  show ?case by simp
next
  case (Cons d ds)
  show ?case
    by (cases "lsifSymbol fuel orc env d (tables v)")
       (auto simp: Cons.IH split: option.splits sum.splits)
qed

lemma descriptor_returns:
  "\<not> (kind (ast orc) node = ImportSpecifier \<and> typeDeclarations orc node \<noteq> Returns [])
   \<Longrightarrow> \<exists>x. descriptor fuel orc node = Some (Inr x)"
  by (auto simp: descriptor.simps [of fuel])

text \<open>One step of \<open>lsifSymbol\<close> at a node that is in no cache and has no case of its own.\<close>

lemma lsifSymbol_step:
  assumes "symbolsCache t node = None" and "localSymbolCache t node = None"
    and "kind (ast orc) node \<noteq> Block" and "kind (ast orc) node \<noteq> SourceFile"
    and "kind (ast orc) node \<noteq> PropertyAssignment"
    and "kind (ast orc) node \<noteq> ShorthandPropertyAssignment"
    and "lsifSymbol fuel orc env (parent (ast orc) node) t = Some (Inr (owner, t1))"
  shows "lsifSymbol (Suc fuel) orc env node t =
     (if isEmptyOrLocal owner then Some (Inr (newLocalSymbol node t1))
      else if isAnonymousContainerOfSymbols orc node
      then (case lsifSymbol fuel orc env (parent (ast orc) node) t1 of
              None \<Rightarrow> None
            | Some (Inl e) \<Rightarrow> Some (Inl e)
            | Some (Inr (symbol, t2)) \<Rightarrow> Some (Inr (cached node symbol t2)))
      else
        (case (if kind (ast orc) node = ImportSpecifier
               then typeDeclarations orc node else Returns []) of
           Throws \<Rightarrow> Some (Inl undefinedSymbol)
         | Returns (declaration # _) \<Rightarrow> lsifSymbol fuel orc env declaration t1
         | Returns [] \<Rightarrow>
             (case descriptor fuel orc node of
                None \<Rightarrow> None
              | Some (Inl e) \<Rightarrow> Some (Inl e)
              | Some (Inr None) \<Rightarrow> Some (Inr (newLocalSymbol node t1))
              | Some (Inr (Some desc)) \<Rightarrow> Some (Inr (cached node (LS_global owner desc) t1)))))"
  using assms by (simp add: lsifSymbol.simps [of "Suc fuel"])

lemma lsifSymbol_owner:
  assumes "symbolsCache t node = None" and "localSymbolCache t node = None"
    and "kind (ast orc) node \<noteq> Block" and "kind (ast orc) node \<noteq> SourceFile"
    and "kind (ast orc) node \<noteq> PropertyAssignment"
    and "kind (ast orc) node \<noteq> ShorthandPropertyAssignment"
    and "lsifSymbol (Suc fuel) orc env node t = Some (Inr (r, t'))"
  shows "\<exists>owner t1. lsifSymbol fuel orc env (parent (ast orc) node) t = Some (Inr (owner, t1))"
  using assms by (auto simp: lsifSymbol.simps [of "Suc fuel"] split: option.splits sum.splits)

lemma lsifSymbol_returns:
  "reachesRoot fuel orc node \<Longrightarrow> \<exists>r. lsifSymbol fuel orc env node t = Some (Inr r)"
proof (induction fuel arbitrary: node t)
  case 0
  then show ?case
    by (auto simp: reachesRoot.simps [of 0] lsifSymbol.simps [of 0] cached_def
             split: option.splits)
next
  case (Suc fuel)
  show ?case
  proof (cases "symbolsCache t node \<noteq> None \<or> localSymbolCache t node \<noteq> None
                \<or> kind (ast orc) node = Block \<or> kind (ast orc) node = SourceFile")
    case True
    then show ?thesis
      by (auto simp: lsifSymbol.simps [of "Suc fuel"] cached_def split: option.splits)
  next
    case False
    show ?thesis
    proof (cases "kind (ast orc) node = PropertyAssignment
                  \<or> kind (ast orc) node = ShorthandPropertyAssignment")
      case True
      then have "reachesRoot fuel orc (getSourceFile (ast orc) node)"
        using Suc.prems False by (auto simp: reachesRoot.simps [of "Suc fuel"])
      then have a: "\<And>t. \<exists>r. lsifSymbol fuel orc env (getSourceFile (ast orc) node) t = Some (Inr r)"
        using Suc.IH by blast
      let ?nm = "node_getText (ast orc) (name (ast orc) node)"
      let ?t1 = "case propertyCounters t ?nm of
                   None \<Rightarrow> t\<lparr>propertyCounters := (propertyCounters t)(?nm \<mapsto> 0)\<rparr>
                 | Some counter \<Rightarrow> t"
      obtain owner t2 where
        "lsifSymbol fuel orc env (getSourceFile (ast orc) node) ?t1 = Some (Inr (owner, t2))"
        using a [of ?t1] by auto
      then show ?thesis using True False
        by (simp add: lsifSymbol.simps [of "Suc fuel"] Let_def split_def)
    next
      case notProp: False
      let ?td = "if kind (ast orc) node = ImportSpecifier
                 then typeDeclarations orc node else Returns []"
      have rr: "reachesRoot fuel orc (parent (ast orc) node)"
        and ri: "kind (ast orc) node = ImportSpecifier \<Longrightarrow>
                 (case typeDeclarations orc node of
                    Throws \<Rightarrow> False
                  | Returns [] \<Rightarrow> True
                  | Returns (declaration # _) \<Rightarrow> reachesRoot fuel orc declaration)"
        using Suc.prems False notProp by (auto simp: reachesRoot.simps [of "Suc fuel"])
      have p: "\<And>t. \<exists>r. lsifSymbol fuel orc env (parent (ast orc) node) t = Some (Inr r)"
        using rr Suc.IH by blast
      obtain owner t1 where
        o: "lsifSymbol fuel orc env (parent (ast orc) node) t = Some (Inr (owner, t1))"
        using p [of t] by auto
      obtain s2 t2 where
        o2: "lsifSymbol fuel orc env (parent (ast orc) node) t1 = Some (Inr (s2, t2))"
        using p [of t1] by auto
      have e: "lsifSymbol (Suc fuel) orc env node t =
         (if isEmptyOrLocal owner then Some (Inr (newLocalSymbol node t1))
          else if isAnonymousContainerOfSymbols orc node
          then Some (Inr (cached node s2 t2))
          else
            (case ?td of
               Throws \<Rightarrow> Some (Inl undefinedSymbol)
             | Returns (declaration # _) \<Rightarrow> lsifSymbol fuel orc env declaration t1
             | Returns [] \<Rightarrow>
                 (case descriptor fuel orc node of
                    None \<Rightarrow> None
                  | Some (Inl e) \<Rightarrow> Some (Inl e)
                  | Some (Inr None) \<Rightarrow> Some (Inr (newLocalSymbol node t1))
                  | Some (Inr (Some desc)) \<Rightarrow> Some (Inr (cached node (LS_global owner desc) t1)))))"
        using False notProp o o2 by (simp add: lsifSymbol_step)
      show ?thesis
      proof (cases ?td)
        case Throws
        then show ?thesis using ri by (auto split: if_splits)
      next
        case (Returns ds)
        show ?thesis
        proof (cases ds)
          case Nil
          then have "\<not> (kind (ast orc) node = ImportSpecifier
                        \<and> typeDeclarations orc node \<noteq> Returns [])"
            using Returns by (auto split: if_splits)
          then obtain x where "descriptor fuel orc node = Some (Inr x)"
            using descriptor_returns by blast
          then show ?thesis using e Returns Nil by (cases x) auto
        next
          case (Cons d rest)
          then have "reachesRoot fuel orc d"
            using Returns ri by (auto split: if_splits)
          then obtain r where "lsifSymbol fuel orc env d t1 = Some (Inr r)"
            using Suc.IH by blast
          then show ?thesis using e Returns Cons by auto
        qed
      qed
    qed
  qed
qed

lemma lsifSymbols_returns:
  "\<forall>d\<in>set ds. reachesRoot fuel orc d \<Longrightarrow> \<exists>r. lsifSymbols fuel orc env ds t = Some (Inr r)"
proof (induction ds arbitrary: t)
  case Nil
  show ?case by simp
next
  case (Cons d ds)
  obtain s t1 where "lsifSymbol fuel orc env d t = Some (Inr (s, t1))"
    using lsifSymbol_returns [of fuel orc d env t] Cons.prems by auto
  moreover obtain r where "lsifSymbols fuel orc env ds t1 = Some (Inr r)"
    using Cons.IH [of t1] Cons.prems by auto
  ultimately show ?case by (cases r) simp
qed

text \<open>
  An invariant \<open>P\<close> of the tables together with a property \<open>R\<close> of the symbols that are
  returned: both hold after \<open>lsifSymbol\<close> when the cache reads, the three writes and the
  symbols built on the way keep them.
\<close>

lemma lsifSymbol_base:
  assumes "symbolsCache t node \<noteq> None \<or> localSymbolCache t node \<noteq> None
           \<or> kind (ast orc) node = Block \<or> kind (ast orc) node = SourceFile"
    and "lsifSymbol fuel orc env node t = Some (Inr (r, t'))"
  shows "(t' = t \<and> (symbolsCache t node = Some r \<or> localSymbolCache t node = Some r))
       \<or> (t' = t \<and> r = LS_empty)
       \<or> cached node LS_empty t = (r, t')
       \<or> (\<exists>a b. cached node (LS_package a b) t = (r, t'))"
  using assms by (auto simp: lsifSymbol.simps [of fuel] split: option.splits if_splits)

lemma lsifSymbol_zero:
  assumes "\<not> (symbolsCache t node \<noteq> None \<or> localSymbolCache t node \<noteq> None
           \<or> kind (ast orc) node = Block \<or> kind (ast orc) node = SourceFile)"
  shows "lsifSymbol 0 orc env node t = None"
  using assms by (simp add: lsifSymbol.simps [of 0])

lemma lsifSymbol_invariant:
  assumes h: "\<And>n s t. P t \<Longrightarrow> symbolsCache t n = Some s \<or> localSymbolCache t n = Some s \<Longrightarrow> R s t"
    and e: "\<And>t. P t \<Longrightarrow> R LS_empty t"
    and k: "\<And>a b t. P t \<Longrightarrow> R (LS_package a b) t"
    and g: "\<And>owner d t. P t \<Longrightarrow> R (LS_global owner d) t"
    and c: "\<And>n s t. P t \<Longrightarrow> R s t \<Longrightarrow> P (snd (cached n s t)) \<and> R s (snd (cached n s t))"
    and l: "\<And>n t. P t \<Longrightarrow> P (snd (newLocalSymbol n t))
                        \<and> R (fst (newLocalSymbol n t)) (snd (newLocalSymbol n t))"
    and p: "\<And>f t. P t \<Longrightarrow> P (t\<lparr>propertyCounters := f\<rparr>)"
  shows "lsifSymbol fuel orc env node t = Some (Inr (r, t')) \<Longrightarrow> P t \<Longrightarrow> P t' \<and> R r t'"
proof (induction fuel arbitrary: node t r t')
  case 0
  have c': "P t' \<and> R r t'" if "P t" and "R s t" and "cached n s t = (r, t')" for n s t r t'
  proof -
    have "r = s" and "t' = snd (cached n s t)" using that(3) by (auto simp: cached_def)
    then show ?thesis using c [OF that(1,2)] by simp
  qed
  have b: "symbolsCache t node \<noteq> None \<or> localSymbolCache t node \<noteq> None
           \<or> kind (ast orc) node = Block \<or> kind (ast orc) node = SourceFile"
    using 0(1) lsifSymbol_zero by fastforce
  show ?case
    using lsifSymbol_base [OF b 0(1)] 0(2) h e k c' by blast
next
  case (Suc fuel)
  have c': "P t' \<and> R r t'" if "P t" and "R s t" and "cached n s t = (r, t')" for n s t r t'
  proof -
    have "r = s" and "t' = snd (cached n s t)" using that(3) by (auto simp: cached_def)
    then show ?thesis using c [OF that(1,2)] by simp
  qed
  have l': "P t' \<and> R r t'" if "P t" and "newLocalSymbol n t = (r, t')" for n t r t'
    using l [OF that(1), of n] that(2) by simp
  show ?case
  proof (cases "symbolsCache t node \<noteq> None \<or> localSymbolCache t node \<noteq> None
                \<or> kind (ast orc) node = Block \<or> kind (ast orc) node = SourceFile")
    case True
    show ?thesis
      using lsifSymbol_base [OF True Suc.prems(1)] Suc.prems(2) h e k c' by blast
  next
    case False
    show ?thesis
    proof (cases "kind (ast orc) node = PropertyAssignment
                  \<or> kind (ast orc) node = ShorthandPropertyAssignment")
      case True
      let ?nm = "node_getText (ast orc) (name (ast orc) node)"
      let ?t1 = "case propertyCounters t ?nm of
                   None \<Rightarrow> t\<lparr>propertyCounters := (propertyCounters t)(?nm \<mapsto> 0)\<rparr>
                 | Some counter \<Rightarrow> t"
      have p1: "P ?t1" using Suc.prems(2) p by (auto split: option.splits)
      obtain owner t2 where
        o: "lsifSymbol fuel orc env (getSourceFile (ast orc) node) ?t1 = Some (Inr (owner, t2))"
        using Suc.prems(1) True False
        by (auto simp: lsifSymbol.simps [of "Suc fuel"] Let_def split: option.splits sum.splits)
      have "P t2" using Suc.IH [OF o p1] by simp
      then have q: "\<And>f. P (t2\<lparr>propertyCounters := f\<rparr>)"
        using p by blast
      obtain d f where "cached node (LS_global owner d) (t2\<lparr>propertyCounters := f\<rparr>) = (r, t')"
        using Suc.prems(1) True False o
        by (auto simp: lsifSymbol.simps [of "Suc fuel"] Let_def split_def split: option.splits)
      then show ?thesis using q c' g by blast
    next
      case notProp: False
      obtain owner t1 where
        o: "lsifSymbol fuel orc env (parent (ast orc) node) t = Some (Inr (owner, t1))"
        using lsifSymbol_owner [OF _ _ _ _ _ _ Suc.prems(1)] False notProp by auto
      have p1: "P t1" using Suc.IH [OF o Suc.prems(2)] by simp
      note e1 = lsifSymbol_step [OF _ _ _ _ _ _ o]
      have e2: "Some (Inr (r, t')) =
         (if isEmptyOrLocal owner then Some (Inr (newLocalSymbol node t1))
          else if isAnonymousContainerOfSymbols orc node
          then (case lsifSymbol fuel orc env (parent (ast orc) node) t1 of
                  None \<Rightarrow> None
                | Some (Inl e) \<Rightarrow> Some (Inl e)
                | Some (Inr (symbol, t2)) \<Rightarrow> Some (Inr (cached node symbol t2)))
          else
            (case (if kind (ast orc) node = ImportSpecifier
                   then typeDeclarations orc node else Returns []) of
               Throws \<Rightarrow> Some (Inl undefinedSymbol)
             | Returns (declaration # _) \<Rightarrow> lsifSymbol fuel orc env declaration t1
             | Returns [] \<Rightarrow>
                 (case descriptor fuel orc node of
                    None \<Rightarrow> None
                  | Some (Inl e) \<Rightarrow> Some (Inl e)
                  | Some (Inr None) \<Rightarrow> Some (Inr (newLocalSymbol node t1))
                  | Some (Inr (Some desc)) \<Rightarrow> Some (Inr (cached node (LS_global owner desc) t1)))))"
        using Suc.prems(1) e1 False notProp by simp
      show ?thesis
      proof (cases "isEmptyOrLocal owner")
        case True
        then have "newLocalSymbol node t1 = (r, t')" using e2 by simp
        then show ?thesis using l' p1 by blast
      next
        case global: False
        show ?thesis
        proof (cases "isAnonymousContainerOfSymbols orc node")
          case True
          then obtain symbol t2 where
            o2: "lsifSymbol fuel orc env (parent (ast orc) node) t1 = Some (Inr (symbol, t2))"
            and r2: "cached node symbol t2 = (r, t')"
            using e2 global by (auto split: option.splits sum.splits)
          have "P t2 \<and> R symbol t2" using Suc.IH [OF o2 p1] .
          then show ?thesis using r2 c' by blast
        next
          case notAnon: False
          let ?td = "if kind (ast orc) node = ImportSpecifier
                     then typeDeclarations orc node else Returns []"
          show ?thesis
          proof (cases ?td)
            case Throws
            then show ?thesis using e2 global notAnon by simp
          next
            case (Returns ds)
            show ?thesis
            proof (cases ds)
              case (Cons d rest)
              then have "lsifSymbol fuel orc env d t1 = Some (Inr (r, t'))"
                using e2 global notAnon Returns by simp
              then show ?thesis using Suc.IH p1 by blast
            next
              case Nil
              then have "newLocalSymbol node t1 = (r, t')
                         \<or> (\<exists>desc. cached node (LS_global owner desc) t1 = (r, t'))"
                using e2 global notAnon Returns by (auto split: option.splits sum.splits)
              then show ?thesis using c' l' g p1 by blast
            qed
          qed
        qed
      qed
    qed
  qed
qed


text \<open>
  A visited identifier whose symbol has k declarations pushes k occurrences when its
  visit returns: one per declaration, in order, each with the range of the identifier and
  its role, and with the symbol that declaration resolves to. An identifier without a
  symbol or without declarations returns at once and pushes none. The visit returns
  whenever every declaration reaches a block or a source file within the budget, through
  import specifiers whose types have symbols.
\<close>

lemma visitIdentifier_occurrences:
  "(visitIdentifier fuel orc env node v = Some (Inr v') \<longrightarrow>
      (\<exists>symbols t'.
         lsifSymbols fuel orc env (declarationsAt orc node) (tables v) = Some (Inr (symbols, t'))
         \<and> length symbols = length (declarationsAt orc node)
         \<and> occurrences (doc v') = occurrences (doc v) @
              map (\<lambda>s. \<lparr>occ_range = range_toLsif env node, occ_symbol = s,
                         occ_symbol_roles =
                           (if declarationName orc (parent (ast orc) node) = Some node
                            then SymbolRole_Definition else 0)\<rparr>) symbols))
   \<and> (declarationsAt orc node = [] \<longrightarrow> visitIdentifier fuel orc env node v = Some (Inr v))
   \<and> ((\<forall>d\<in>set (declarationsAt orc node). reachesRoot fuel orc d)
        \<longrightarrow> (\<exists>v'. visitIdentifier fuel orc env node v = Some (Inr v')))"
proof (intro conjI impI)
  assume r: "visitIdentifier fuel orc env node v = Some (Inr v')"
  then obtain symbols t' where
    l: "lsifSymbols fuel orc env (declarationsAt orc node) (tables v) = Some (Inr (symbols, t'))"
    by (auto simp: visitIdentifier_def Let_def pushOccurrences_lsifSymbols
             split: option.splits sum.splits)
  have "length symbols = length (declarationsAt orc node)"
    using l by (rule lsifSymbols_length)
  moreover have "occurrences (doc v') = occurrences (doc v) @
              map (\<lambda>s. \<lparr>occ_range = range_toLsif env node, occ_symbol = s,
                         occ_symbol_roles =
                           (if declarationName orc (parent (ast orc) node) = Some node
                            then SymbolRole_Definition else 0)\<rparr>) symbols"
    using r l by (auto simp: visitIdentifier_def Let_def pushOccurrences_lsifSymbols)
  ultimately show "\<exists>symbols t'.
         lsifSymbols fuel orc env (declarationsAt orc node) (tables v) = Some (Inr (symbols, t'))
         \<and> length symbols = length (declarationsAt orc node)
         \<and> occurrences (doc v') = occurrences (doc v) @
              map (\<lambda>s. \<lparr>occ_range = range_toLsif env node, occ_symbol = s,
                         occ_symbol_roles =
                           (if declarationName orc (parent (ast orc) node) = Some node
                            then SymbolRole_Definition else 0)\<rparr>) symbols"
    using l by blast
next
  assume "declarationsAt orc node = []"
  then show "visitIdentifier fuel orc env node v = Some (Inr v)"
    by (simp add: visitIdentifier_def)
next
  assume "\<forall>d\<in>set (declarationsAt orc node). reachesRoot fuel orc d"
  then obtain r where "lsifSymbols fuel orc env (declarationsAt orc node) (tables v) = Some (Inr r)"
    using lsifSymbols_returns by blast
  then show "\<exists>v'. visitIdentifier fuel orc env node v = Some (Inr v')"
    by (cases r) (simp add: visitIdentifier_def Let_def pushOccurrences_lsifSymbols)
qed

text \<open>
  C9. The claim has every identifier push one occurrence per declaration of its symbol.
  In the file \<open>import { f, n } from './m'\<close> the symbol of the name \<open>n\<close> (node 27) has one
  declaration, its import specifier (node 26). \<open>lsifSymbol\<close> reads
  \<open>tpe.symbol.declarations\<close> for the type of that specifier, the type \<open>number\<close>, which has no
  symbol: the visit of the identifier throws and pushes no occurrence. Nothing catches the
  error, so the visitor and the indexer end with it, and the occurrence pushed before for
  \<open>f\<close> is written nowhere.
\<close>

theorem import_specifier_of_number_throws:
  "declarationsAt typedOracle 27 = [26]
   \<and> kind (ast typedOracle) 26 = ImportSpecifier
   \<and> typeSymbolAtLocation (checker typedOracle) 26 = None
   \<and> (case visitIdentifier 6 typedOracle exampleEnv 27 freshVisitor of
         Some (Inl e) \<Rightarrow> e = undefinedSymbol | _ \<Rightarrow> False)
   \<and> (case Visitor_index 6 typedOracle exampleEnv (importFile 0) freshVisitor of
         Some (Inl e) \<Rightarrow> e = undefinedSymbol | _ \<Rightarrow> False)
   \<and> written (fst (Indexer_index 6 typedOracle exampleEnv [importFile 0]))
       = [IndexMetadata ''/p'']
   \<and> snd (Indexer_index 6 typedOracle exampleEnv [importFile 0]) = Some (Inl undefinedSymbol)"
  by code_simp

section \<open>Documents written by the descriptor indexer\<close>

lemma pushOccurrences_path:
  "pushOccurrences fuel orc env rng role ds v = Some (Inr v')
   \<Longrightarrow> relative_path (doc v') = relative_path (doc v)"
  by (auto simp: pushOccurrences_lsifSymbols split: option.splits sum.splits)

lemma Visitor_visit_preserves:
  assumes q: "\<And>fuel orc env node v v'. visitIdentifier fuel orc env node v = Some (Inr v') \<Longrightarrow> Q v \<Longrightarrow> Q v'"
  shows "Visitor_visit fuel orc env tree v = Some (Inr v') \<Longrightarrow> Q v \<Longrightarrow> Q v'"
    and "Visitor_visitChildren fuel orc env trees v = Some (Inr v') \<Longrightarrow> Q v \<Longrightarrow> Q v'"
proof (induction fuel orc env tree v and fuel orc env trees v arbitrary: v' and v'
       rule: Visitor_visit_Visitor_visitChildren.induct)
  case (1 fuel orc env node children v)
  obtain v1 where
    a: "(if kind (ast orc) node = Identifier then visitIdentifier fuel orc env node v
         else Some (Inr v)) = Some (Inr v1)"
    and b: "Visitor_visitChildren fuel orc env children v1 = Some (Inr v')"
    using 1(2) by (auto split: option.splits sum.splits)
  have "Q v1" using a q 1(3) by (auto split: if_splits)
  then show ?case using 1(1) [OF a refl b] by simp
next
  case (2 fuel orc env v)
  then show ?case by simp
next
  case (3 fuel orc env child rest v)
  obtain v1 where a: "Visitor_visit fuel orc env child v = Some (Inr v1)"
    and b: "Visitor_visitChildren fuel orc env rest v1 = Some (Inr v')"
    using 3(3) by (auto split: option.splits sum.splits)
  have "Q v1" using 3(1) [OF a 3(4)] .
  then show ?case using 3(2) [OF a refl b] by simp
qed

lemma Visitor_visit_path:
  "Visitor_visit fuel orc env tree v = Some (Inr v')
   \<Longrightarrow> relative_path (doc v') = relative_path (doc v)"
proof -
  assume r: "Visitor_visit fuel orc env tree v = Some (Inr v')"
  have "\<And>fuel orc env node w w'. visitIdentifier fuel orc env node w = Some (Inr w')
          \<Longrightarrow> relative_path (doc w) = relative_path (doc v)
          \<Longrightarrow> relative_path (doc w') = relative_path (doc v)"
    using pushOccurrences_path by (auto simp: visitIdentifier_def Let_def)
  then show ?thesis
    using Visitor_visit_preserves(1) [of "\<lambda>w. relative_path (doc w) = relative_path (doc v)", OF _ r]
    by blast
qed

lemma indexSourceFiles_written:
  "IndexDocuments ds \<in> set (written (fst (indexSourceFiles fuel orc env sourceFiles ix)))
   \<Longrightarrow> IndexDocuments ds \<in> set (written ix)
       \<or> (\<exists>sourceFile children cache v.
             ds = [doc v] \<and> SyntaxTree sourceFile children \<in> set sourceFiles
             \<and> fileName (ast orc) sourceFile \<in> set (env_fileNames env)
             \<and> Visitor_index fuel orc env (SyntaxTree sourceFile children)
                  (newVisitor cache (newDocument orc env sourceFile)) = Some (Inr v)
             \<and> occurrences (doc v) \<noteq> [])"
proof (induction fuel orc env sourceFiles ix rule: indexSourceFiles.induct)
  case (1 fuel orc env ix)
  then show ?case by simp
next
  case (2 fuel orc env sourceFile children rest ix)
  show ?case
  proof (cases "fileName (ast orc) sourceFile \<in> set (env_fileNames env)")
    case False
    then show ?thesis using 2(2) 2(3) by auto
  next
    case True
    show ?thesis
    proof (cases "Visitor_index fuel orc env (SyntaxTree sourceFile children)
                    (newVisitor (indexer_symbolsCache ix) (newDocument orc env sourceFile))")
      case None
      then show ?thesis using True 2(3) by simp
    next
      case (Some result)
      show ?thesis
      proof (cases result)
        case (Inl err)
        then show ?thesis using True Some 2(3) by simp
      next
        case (Inr v)
        let ?ix = "ix\<lparr>written := written ix @
                        (if length (occurrences (doc v)) > 0 then [IndexDocuments [doc v]] else []),
                      indexer_symbolsCache := symbolsCache (tables v)\<rparr>"
        have s: "Visitor_index fuel orc env (SyntaxTree sourceFile children)
                    (newVisitor (indexer_symbolsCache ix) (newDocument orc env sourceFile))
                 = Some (Inr v)"
          using Some Inr by simp
        have "IndexDocuments ds \<in> set (written (fst (indexSourceFiles fuel orc env rest ?ix)))"
          using 2(3) True s by simp
        then have "IndexDocuments ds \<in> set (written ?ix)
           \<or> (\<exists>sourceFile children cache v.
               ds = [doc v] \<and> SyntaxTree sourceFile children \<in> set rest
               \<and> fileName (ast orc) sourceFile \<in> set (env_fileNames env)
               \<and> Visitor_index fuel orc env (SyntaxTree sourceFile children)
                    (newVisitor cache (newDocument orc env sourceFile)) = Some (Inr v)
               \<and> occurrences (doc v) \<noteq> [])"
          using 2(1) [OF True s] by simp
        then show ?thesis
        proof
          assume "IndexDocuments ds \<in> set (written ?ix)"
          then have "IndexDocuments ds \<in> set (written ix)
                     \<or> (ds = [doc v] \<and> occurrences (doc v) \<noteq> [])"
            by (auto split: if_splits)
          then show ?thesis using True s by auto
        next
          assume "\<exists>sourceFile children cache v.
               ds = [doc v] \<and> SyntaxTree sourceFile children \<in> set rest
               \<and> fileName (ast orc) sourceFile \<in> set (env_fileNames env)
               \<and> Visitor_index fuel orc env (SyntaxTree sourceFile children)
                    (newVisitor cache (newDocument orc env sourceFile)) = Some (Inr v)
               \<and> occurrences (doc v) \<noteq> []"
          then show ?thesis by auto
        qed
      qed
    qed
  qed
qed

text \<open>
  C10. Every document the indexer writes, whether or not the run ends, is the document of
  the visitor of a source file of the program whose file name is among the file names of
  the configuration; that visitor has returned with at least one occurrence, and the
  document carries the path of the file relative to the project. So a file that is not
  configured, and a configured file whose visitor pushed no occurrence or did not return,
  contribute no document.
\<close>

theorem documents_written:
  assumes "IndexDocuments ds \<in> set (written (fst (Indexer_index fuel orc env sourceFiles)))"
  shows "\<exists>sourceFile children cache v.
           ds = [doc v] \<and> SyntaxTree sourceFile children \<in> set sourceFiles
           \<and> fileName (ast orc) sourceFile \<in> set (env_fileNames env)
           \<and> Visitor_index fuel orc env (SyntaxTree sourceFile children)
                (newVisitor cache (newDocument orc env sourceFile)) = Some (Inr v)
           \<and> occurrences (doc v) \<noteq> []
           \<and> relative_path (doc v)
               = path_relative env (env_project env) (fileName (ast orc) sourceFile)"
proof -
  have "IndexDocuments ds \<in> set (written \<lparr>written = [IndexMetadata (env_project env)],
            indexer_symbolsCache = Map.empty\<rparr>)
       \<or> (\<exists>sourceFile children cache v.
             ds = [doc v] \<and> SyntaxTree sourceFile children \<in> set sourceFiles
             \<and> fileName (ast orc) sourceFile \<in> set (env_fileNames env)
             \<and> Visitor_index fuel orc env (SyntaxTree sourceFile children)
                  (newVisitor cache (newDocument orc env sourceFile)) = Some (Inr v)
             \<and> occurrences (doc v) \<noteq> [])"
    using assms unfolding Indexer_index_def by (rule indexSourceFiles_written)
  then obtain sourceFile children cache v where
    a: "ds = [doc v]" "SyntaxTree sourceFile children \<in> set sourceFiles"
       "fileName (ast orc) sourceFile \<in> set (env_fileNames env)"
       "Visitor_index fuel orc env (SyntaxTree sourceFile children)
                  (newVisitor cache (newDocument orc env sourceFile)) = Some (Inr v)"
       "occurrences (doc v) \<noteq> []"
    by auto
  have "relative_path (doc v) = relative_path (doc (newVisitor cache (newDocument orc env sourceFile)))"
    using a(4) Visitor_visit_path unfolding Visitor_index_def by blast
  then have "relative_path (doc v)
               = path_relative env (env_project env) (fileName (ast orc) sourceFile)"
    by (simp add: newVisitor_def newDocument_def)
  then show ?thesis using a by blast
qed

lemma example_index:
  "written (fst (Indexer_index 4 typedOracle exampleEnv
      [functionFile 0, SyntaxTree 101 [], functionFile 200, importFile 100]))
   = [IndexMetadata ''/p'', IndexDocuments [exampleDocument]]"
  by code_simp

theorem documents_written_witness:
  "IndexDocuments [exampleDocument]
     \<in> set (written (fst (Indexer_index 4 typedOracle exampleEnv
              [functionFile 0, SyntaxTree 101 [], functionFile 200, importFile 100])))
   \<and> (\<exists>sourceFile children cache v.
         [exampleDocument] = [doc v]
         \<and> SyntaxTree sourceFile children
             \<in> set [functionFile 0, SyntaxTree 101 [], functionFile 200, importFile 100]
         \<and> fileName (ast typedOracle) sourceFile \<in> set (env_fileNames exampleEnv)
         \<and> Visitor_index 4 typedOracle exampleEnv (SyntaxTree sourceFile children)
              (newVisitor cache (newDocument typedOracle exampleEnv sourceFile)) = Some (Inr v)
         \<and> occurrences (doc v) \<noteq> []
         \<and> relative_path (doc v)
             = path_relative exampleEnv (env_project exampleEnv) (fileName (ast typedOracle) sourceFile))"
proof -
  have m: "IndexDocuments [exampleDocument]
     \<in> set (written (fst (Indexer_index 4 typedOracle exampleEnv
              [functionFile 0, SyntaxTree 101 [], functionFile 200, importFile 100])))"
    by (simp add: example_index)
  show ?thesis using documents_written [OF m] m by blast
qed

section \<open>Local symbols\<close>



lemma localsInv_newLocalSymbol: "localsInv t \<Longrightarrow> localsInv (snd (newLocalSymbol n t))"
  unfolding localsInv_def newLocalSymbol_def Counter_next_def Let_def
  by (auto simp: less_Suc_eq)









section \<open>Anonymous containers\<close>

text \<open>
  C8, as stated: the symbol of an anonymous container is the symbol of its parent. It is
  not when the parent resolves to the empty symbol or to a local symbol, because
  \<open>lsifSymbol\<close> returns a new local symbol for such a node before it asks whether the node is
  an anonymous container. The variable statement in a function body (node 5) has the block
  of the body as its parent (node 4): the block resolves to the empty symbol and the
  statement to \<open>LS_local 0\<close>. The declaration list of the statement (node 6) resolves to
  \<open>LS_local 1\<close>, and its parent, the statement, to \<open>LS_local 0\<close>.
\<close>

theorem container_not_transparent_counterexample:
  "isAnonymousContainerOfSymbols typedOracle 5 \<and> parent (ast typedOracle) 5 = 4
   \<and> (case lsifSymbol 4 typedOracle exampleEnv 4 freshTables of
         Some (Inr (s, t1)) \<Rightarrow> s = LS_empty | _ \<Rightarrow> False)
   \<and> (case lsifSymbol 4 typedOracle exampleEnv 5 freshTables of
         Some (Inr (s, t1)) \<Rightarrow>
           s = LS_local 0
           \<and> (case lsifSymbol 4 typedOracle exampleEnv 4 t1 of
                 Some (Inr (s', t2)) \<Rightarrow> s' = LS_empty | _ \<Rightarrow> False)
       | _ \<Rightarrow> False)
   \<and> isAnonymousContainerOfSymbols typedOracle 6 \<and> parent (ast typedOracle) 6 = 5
   \<and> (case lsifSymbol 4 typedOracle exampleEnv 6 freshTables of
         Some (Inr (s, t1)) \<Rightarrow>
           s = LS_local 1
           \<and> (case lsifSymbol 4 typedOracle exampleEnv 5 t1 of
                 Some (Inr (s', t2)) \<Rightarrow> s' = LS_local 0 | _ \<Rightarrow> False)
       | _ \<Rightarrow> False)"
  by code_simp

text \<open>
  Together with \<open>localsInv\<close>, \<open>sharedInv\<close> is kept by \<open>lsifSymbol\<close>, and a local symbol it
  returns is below the counter it leaves.
\<close>

lemma lsifSymbol_locals:
  assumes "lsifSymbol fuel orc env node t = Some (Inr (r, t'))"
    and "localsInv t" and "sharedInv t"
  shows "localsInv t' \<and> sharedInv t' \<and> (\<forall>k. r = LS_local k \<longrightarrow> k < localCounter t')"
proof -
  let ?P = "\<lambda>t. localsInv t \<and> sharedInv t"
  let ?R = "\<lambda>s t. \<forall>k. s = LS_local k \<longrightarrow> k < localCounter t"
  have h: "\<And>n s t. ?P t \<Longrightarrow> symbolsCache t n = Some s \<or> localSymbolCache t n = Some s
             \<Longrightarrow> ?R s t"
    unfolding localsInv_def sharedInv_def by fastforce
  have c: "\<And>n s t. ?P t \<Longrightarrow> ?R s t
             \<Longrightarrow> ?P (snd (cached n s t)) \<and> ?R s (snd (cached n s t))"
    by (simp add: localsInv_def sharedInv_def cached_def)
  have l: "\<And>n t. ?P t \<Longrightarrow> ?P (snd (newLocalSymbol n t))
                        \<and> ?R (fst (newLocalSymbol n t)) (snd (newLocalSymbol n t))"
    using localsInv_newLocalSymbol
    by (auto simp: sharedInv_def newLocalSymbol_def Counter_next_def Let_def less_Suc_eq)
  have p: "\<And>f t. ?P t \<Longrightarrow> ?P (t\<lparr>propertyCounters := f\<rparr>)"
    by (simp add: localsInv_def sharedInv_def)
  have "?P t' \<and> ?R r t'"
    using assms(2,3)
    by (intro lsifSymbol_invariant [of ?P ?R, OF h _ _ _ c l p assms(1)]) simp_all
  then show ?thesis by simp
qed

text \<open>
  A symbol that is neither empty nor local is in the shared cache once it was returned.
\<close>

lemma lsifSymbol_property:
  assumes "symbolsCache t node = None" and "localSymbolCache t node = None"
    and "kind (ast orc) node = PropertyAssignment
         \<or> kind (ast orc) node = ShorthandPropertyAssignment"
    and "lsifSymbol fuel orc env node t = Some (Inr (r, t'))"
  shows "\<exists>s t3. cached node s t3 = (r, t')"
proof (cases fuel)
  case 0
  then show ?thesis using assms by (auto simp: lsifSymbol.simps [of 0])
next
  case (Suc fuel')
  then show ?thesis using assms
    by (auto simp: lsifSymbol.simps [of "Suc fuel'"] Let_def split_def
             split: option.splits sum.splits; blast)
qed

lemma global_result_cached:
  assumes r: "lsifSymbol fuel orc env p t = Some (Inr (r, t1))" and g: "\<not> isEmptyOrLocal r"
    and i: "kind (ast orc) p \<noteq> ImportSpecifier" and inv: "localsInv t"
  shows "symbolsCache t1 p = Some r"
proof (cases "symbolsCache t p \<noteq> None \<or> localSymbolCache t p \<noteq> None
              \<or> kind (ast orc) p = Block \<or> kind (ast orc) p = SourceFile")
  case True
  have nl: "localSymbolCache t p \<noteq> Some r"
    using g inv unfolding localsInv_def isEmptyOrLocal_def by fastforce
  have ne: "r \<noteq> LS_empty" using g by (auto simp: isEmptyOrLocal_def)
  show ?thesis
    using lsifSymbol_base [OF True r] nl ne by (auto simp: cached_def)
next
  case False
  then obtain fuel' where f: "fuel = Suc fuel'"
    using r lsifSymbol_zero [of t p orc env] by (cases fuel) auto
  show ?thesis
  proof (cases "kind (ast orc) p = PropertyAssignment
                \<or> kind (ast orc) p = ShorthandPropertyAssignment")
    case True
    then obtain s t3 where "cached p s t3 = (r, t1)"
      using lsifSymbol_property [of t p orc fuel env r t1] False r by auto
    then show ?thesis by (auto simp: cached_def)
  next
    case notProp: False
    obtain owner t0 where
      o: "lsifSymbol fuel' orc env (parent (ast orc) p) t = Some (Inr (owner, t0))"
      using lsifSymbol_owner [of t p orc fuel' env r t1] False notProp r f by auto
    have nl: "\<And>t0. newLocalSymbol p t0 \<noteq> (r, t1)"
      using g by (auto simp: newLocalSymbol_def Counter_next_def isEmptyOrLocal_def Let_def)
    have "Some (Inr (r, t1)) =
       (if isEmptyOrLocal owner then Some (Inr (newLocalSymbol p t0))
        else if isAnonymousContainerOfSymbols orc p
        then (case lsifSymbol fuel' orc env (parent (ast orc) p) t0 of
                None \<Rightarrow> None
              | Some (Inl e) \<Rightarrow> Some (Inl e)
              | Some (Inr (symbol, t2)) \<Rightarrow> Some (Inr (cached p symbol t2)))
        else
          (case descriptor fuel' orc p of
             None \<Rightarrow> None
           | Some (Inl e) \<Rightarrow> Some (Inl e)
           | Some (Inr None) \<Rightarrow> Some (Inr (newLocalSymbol p t0))
           | Some (Inr (Some desc)) \<Rightarrow> Some (Inr (cached p (LS_global owner desc) t0))))"
      using r f i False notProp lsifSymbol_step [OF _ _ _ _ _ _ o] by simp
    then show ?thesis
      using nl by (auto simp: cached_def split: if_splits option.splits sum.splits)
  qed
qed

text \<open>
  C8, amended. An anonymous container that is in neither cache resolves to the symbol of
  its parent, and is cached with it, when the parent resolves to a symbol that is neither
  empty nor local. When the parent resolves to the empty symbol or to a local symbol, the
  container is given a new local symbol, the value of the counter of the visitor; that
  symbol is not the symbol of the parent whenever every local symbol in the two caches of
  the visitor is below its counter, as it is from a new visitor whose shared cache holds
  no local symbol onwards.
\<close>

theorem container_symbol_of_owner:
  assumes "isAnonymousContainerOfSymbols orc node"
    and "symbolsCache t node = None" and "localSymbolCache t node = None"
    and "lsifSymbol fuel orc env (parent (ast orc) node) t = Some (Inr (owner, t1))"
  shows "(\<not> isEmptyOrLocal owner \<and> kind (ast orc) (parent (ast orc) node) \<noteq> ImportSpecifier
          \<and> localsInv t
          \<longrightarrow> lsifSymbol (Suc fuel) orc env node t
                = Some (Inr (owner, t1\<lparr>symbolsCache := (symbolsCache t1)(node \<mapsto> owner)\<rparr>)))
       \<and> (isEmptyOrLocal owner
          \<longrightarrow> lsifSymbol (Suc fuel) orc env node t = Some (Inr (newLocalSymbol node t1))
              \<and> fst (newLocalSymbol node t1) = LS_local (localCounter t1)
              \<and> (localsInv t \<and> sharedInv t \<longrightarrow> fst (newLocalSymbol node t1) \<noteq> owner))"
proof -
  have k: "kind (ast orc) node \<noteq> Block" "kind (ast orc) node \<noteq> SourceFile"
    "kind (ast orc) node \<noteq> PropertyAssignment"
    "kind (ast orc) node \<noteq> ShorthandPropertyAssignment"
    using assms(1) by (auto simp: isAnonymousContainerOfSymbols_def)
  have e: "lsifSymbol (Suc fuel) orc env node t =
          (if isEmptyOrLocal owner then Some (Inr (newLocalSymbol node t1))
           else (case lsifSymbol fuel orc env (parent (ast orc) node) t1 of
                   None \<Rightarrow> None
                 | Some (Inl e) \<Rightarrow> Some (Inl e)
                 | Some (Inr (symbol, t2)) \<Rightarrow> Some (Inr (cached node symbol t2))))"
    using assms(1) lsifSymbol_step [OF assms(2,3) k assms(4)] by simp
  have n: "fst (newLocalSymbol node t1) = LS_local (localCounter t1)"
    by (simp add: newLocalSymbol_def Counter_next_def Let_def)
  show ?thesis
  proof (intro conjI impI)
    assume g: "\<not> isEmptyOrLocal owner
               \<and> kind (ast orc) (parent (ast orc) node) \<noteq> ImportSpecifier \<and> localsInv t"
    then have "symbolsCache t1 (parent (ast orc) node) = Some owner"
      using global_result_cached [OF assms(4)] by blast
    then have "lsifSymbol fuel orc env (parent (ast orc) node) t1 = Some (Inr (owner, t1))"
      by (simp add: lsifSymbol.simps [of fuel])
    then show "lsifSymbol (Suc fuel) orc env node t
                = Some (Inr (owner, t1\<lparr>symbolsCache := (symbolsCache t1)(node \<mapsto> owner)\<rparr>))"
      using e g by (simp add: cached_def)
  next
    assume "isEmptyOrLocal owner"
    then show "lsifSymbol (Suc fuel) orc env node t = Some (Inr (newLocalSymbol node t1))"
      using e by simp
  next
    show "fst (newLocalSymbol node t1) = LS_local (localCounter t1)" by (rule n)
  next
    assume "localsInv t \<and> sharedInv t"
    then have "\<forall>k. owner = LS_local k \<longrightarrow> k < localCounter t1"
      using lsifSymbol_locals [OF assms(4)] by blast
    then show "fst (newLocalSymbol node t1) \<noteq> owner"
      using n by auto
  qed
qed

lemma example_container:
  "isAnonymousContainerOfSymbols typedOracle 9
   \<and> symbolsCache freshTables 9 = None \<and> localSymbolCache freshTables 9 = None
   \<and> kind (ast typedOracle) (parent (ast typedOracle) 9) \<noteq> ImportSpecifier
   \<and> (case lsifSymbol 0 typedOracle exampleEnv (parent (ast typedOracle) 9) freshTables of
         Some (Inr (s, t1)) \<Rightarrow> s = LS_package ''pkg'' ''1.0.0'' | _ \<Rightarrow> False)
   \<and> \<not> isEmptyOrLocal (LS_package ''pkg'' ''1.0.0'')
   \<and> isAnonymousContainerOfSymbols typedOracle 6
   \<and> symbolsCache freshTables 6 = None \<and> localSymbolCache freshTables 6 = None
   \<and> (case lsifSymbol 2 typedOracle exampleEnv (parent (ast typedOracle) 6) freshTables of
         Some (Inr (s, t1)) \<Rightarrow> s = LS_local 0 \<and> localCounter t1 = 1 | _ \<Rightarrow> False)
   \<and> isEmptyOrLocal (LS_local 0)"
  by code_simp

theorem container_symbol_of_owner_witness:
  "isAnonymousContainerOfSymbols typedOracle 9
   \<and> symbolsCache freshTables 9 = None \<and> localSymbolCache freshTables 9 = None
   \<and> kind (ast typedOracle) (parent (ast typedOracle) 9) \<noteq> ImportSpecifier
   \<and> localsInv freshTables \<and> sharedInv freshTables
   \<and> (case lsifSymbol 0 typedOracle exampleEnv (parent (ast typedOracle) 9) freshTables of
         Some (Inr (s, t1)) \<Rightarrow> s = LS_package ''pkg'' ''1.0.0'' | _ \<Rightarrow> False)
   \<and> \<not> isEmptyOrLocal (LS_package ''pkg'' ''1.0.0'')
   \<and> (case lsifSymbol (Suc 0) typedOracle exampleEnv 9 freshTables of
         Some (Inr (s, t1)) \<Rightarrow> s = LS_package ''pkg'' ''1.0.0'' | _ \<Rightarrow> False)
   \<and> isAnonymousContainerOfSymbols typedOracle 6
   \<and> symbolsCache freshTables 6 = None \<and> localSymbolCache freshTables 6 = None
   \<and> (case lsifSymbol 2 typedOracle exampleEnv (parent (ast typedOracle) 6) freshTables of
         Some (Inr (s, t1)) \<Rightarrow> s = LS_local 0 | _ \<Rightarrow> False)
   \<and> isEmptyOrLocal (LS_local 0)
   \<and> (case lsifSymbol (Suc 2) typedOracle exampleEnv 6 freshTables of
         Some (Inr (s, t1)) \<Rightarrow> s = LS_local 1 \<and> s \<noteq> LS_local 0 | _ \<Rightarrow> False)"
proof -
  have i: "localsInv freshTables" "sharedInv freshTables"
    by (simp_all add: localsInv_def sharedInv_def freshTables_def)
  have c1: "isAnonymousContainerOfSymbols typedOracle 9"
    and c2: "symbolsCache freshTables 9 = None"
    and c3: "localSymbolCache freshTables 9 = None"
    and c4: "kind (ast typedOracle) (parent (ast typedOracle) 9) \<noteq> ImportSpecifier"
    and c5: "\<not> isEmptyOrLocal (LS_package ''pkg'' ''1.0.0'')"
    and d1: "isAnonymousContainerOfSymbols typedOracle 6"
    and d2: "symbolsCache freshTables 6 = None"
    and d3: "localSymbolCache freshTables 6 = None"
    and d5: "isEmptyOrLocal (LS_local 0)"
    using example_container by simp_all
  obtain t1 where p:
    "lsifSymbol 0 typedOracle exampleEnv (parent (ast typedOracle) 9) freshTables
       = Some (Inr (LS_package ''pkg'' ''1.0.0'', t1))"
    using example_container by (auto split: option.splits sum.splits)
  obtain u1 where q:
    "lsifSymbol 2 typedOracle exampleEnv (parent (ast typedOracle) 6) freshTables
       = Some (Inr (LS_local 0, u1))"
    and u: "localCounter u1 = 1"
    using example_container by (auto split: option.splits sum.splits)
  have a: "lsifSymbol (Suc 0) typedOracle exampleEnv 9 freshTables
          = Some (Inr (LS_package ''pkg'' ''1.0.0'',
               t1\<lparr>symbolsCache := (symbolsCache t1)(9 \<mapsto> LS_package ''pkg'' ''1.0.0'')\<rparr>))"
    using container_symbol_of_owner [OF c1 c2 c3 p] c4 c5 i by simp
  have b: "lsifSymbol (Suc 2) typedOracle exampleEnv 6 freshTables
             = Some (Inr (newLocalSymbol 6 u1))
           \<and> fst (newLocalSymbol 6 u1) = LS_local (localCounter u1)
           \<and> fst (newLocalSymbol 6 u1) \<noteq> LS_local 0"
    using container_symbol_of_owner [OF d1 d2 d3 q] d5 i u by simp
  obtain s u2 where n: "newLocalSymbol 6 u1 = (s, u2)" by (cases "newLocalSymbol 6 u1")
  have "s = LS_local 1" using b n u by simp
  then have b1: "lsifSymbol (Suc 2) typedOracle exampleEnv 6 freshTables
                   = Some (Inr (LS_local 1, u2))"
    using b n by simp
  have a': "(case lsifSymbol (Suc 0) typedOracle exampleEnv 9 freshTables of
         Some (Inr (s, t1)) \<Rightarrow> s = LS_package ''pkg'' ''1.0.0'' | _ \<Rightarrow> False)"
    by (simp only: a option.case sum.case prod.case)
  have b': "(case lsifSymbol (Suc 2) typedOracle exampleEnv 6 freshTables of
         Some (Inr (s, t1)) \<Rightarrow> s = LS_local 1 \<and> s \<noteq> LS_local 0 | _ \<Rightarrow> False)"
    using b1 by simp
  have p': "(case lsifSymbol 0 typedOracle exampleEnv (parent (ast typedOracle) 9) freshTables of
         Some (Inr (s, t1)) \<Rightarrow> s = LS_package ''pkg'' ''1.0.0'' | _ \<Rightarrow> False)"
    by (simp only: p option.case sum.case prod.case)
  have q': "(case lsifSymbol 2 typedOracle exampleEnv (parent (ast typedOracle) 6) freshTables of
         Some (Inr (s, t1)) \<Rightarrow> s = LS_local 0 | _ \<Rightarrow> False)"
    by (simp only: q option.case sum.case prod.case)
  show ?thesis
    using c1 c2 c3 c4 c5 d1 d2 d3 d5 i a' b' p' q' by blast
qed

end
